theory Spec2Isabelle
  imports Main "HOL-Library.Sublist"
begin

section \<open>JavaScript values and strings\<close>

text \<open>
  A JavaScript string is a sequence of UTF-16 code units; a code unit is modelled by its
  numeric value. Literals of the source are written \<open>str ''...''\<close>.
\<close>

type_synonym codeunit = nat
type_synonym jsstring = "codeunit list"

definition str :: "string \<Rightarrow> jsstring" where
  "str s = map of_char s"

text \<open>
  \<open>String.prototype.includes\<close>: the argument occurs as a contiguous run of code units.
\<close>

definition js_includes :: "jsstring \<Rightarrow> jsstring \<Rightarrow> bool" where
  "js_includes s t = sublist t s"

text \<open>
  \<open>s.replace(pat, rep)\<close> with a string pattern, and \<open>s.replace(/pat/, rep)\<close> with a
  regular expression made of literal characters and no \<open>g\<close> flag: only the leftmost
  occurrence is replaced. The replacement strings of the source contain no \<open>$\<close>.
\<close>

fun replace_first :: "jsstring \<Rightarrow> jsstring \<Rightarrow> jsstring \<Rightarrow> jsstring" where
  "replace_first [] pat rep = (if pat = [] then rep else [])"
| "replace_first (c # cs) pat rep =
     (if prefix pat (c # cs) then rep @ drop (length pat) (c # cs)
      else c # replace_first cs pat rep)"


text \<open>
  The characters matched by \<open>\s\<close> and removed by \<open>trim()\<close>: the WhiteSpace and
  LineTerminator code points of ECMAScript. \<open>\d\<close> is \<open>0\<close> to \<open>9\<close>.
\<close>

definition is_space :: "codeunit \<Rightarrow> bool" where
  "is_space c \<longleftrightarrow>
     c = 9 \<or> c = 10 \<or> c = 11 \<or> c = 12 \<or> c = 13 \<or> c = 32 \<or> c = 160 \<or> c = 5760 \<or>
     (8192 \<le> c \<and> c \<le> 8202) \<or> c = 8232 \<or> c = 8233 \<or> c = 8239 \<or> c = 8287 \<or>
     c = 12288 \<or> c = 65279"

definition is_digit :: "codeunit \<Rightarrow> bool" where
  "is_digit c \<longleftrightarrow> 48 \<le> c \<and> c \<le> 57"

definition is_line_terminator :: "codeunit \<Rightarrow> bool" where
  "is_line_terminator c \<longleftrightarrow> c = 10 \<or> c = 13 \<or> c = 8232 \<or> c = 8233"

definition trim :: "jsstring \<Rightarrow> jsstring" where
  "trim s = rev (dropWhile is_space (rev (dropWhile is_space s)))"

text \<open>
  Matching under the \<open>i\<close> flag (without \<open>u\<close>): a pattern character that is an ASCII
  letter matches exactly its two ASCII case variants, since canonicalisation never maps a
  code unit above 127 to one below 128.
\<close>

definition ascii_upper :: "codeunit \<Rightarrow> codeunit" where
  "ascii_upper c = (if 97 \<le> c \<and> c \<le> 122 then c - 32 else c)"

definition prefix_ci :: "jsstring \<Rightarrow> jsstring \<Rightarrow> bool" where
  "prefix_ci pat s = prefix (map ascii_upper pat) (map ascii_upper s)"

text \<open>
  The values a parsed JSON body or a diagnostic payload can hold. A number is modelled
  by an integer: the code only tests numbers for zero and compares status codes.
\<close>

datatype jsval =
    JUndefined
  | JNull
  | JBool bool
  | JNum int
  | JStr jsstring
  | JArr "jsval list"
  | JObj "(jsstring \<times> jsval) list"

fun truthy :: "jsval \<Rightarrow> bool" where
  "truthy JUndefined = False"
| "truthy JNull = False"
| "truthy (JBool b) = b"
| "truthy (JNum n) = (n \<noteq> 0)"
| "truthy (JStr s) = (s \<noteq> [])"
| "truthy (JArr xs) = True"
| "truthy (JObj fs) = True"

text \<open>A thrown error is modelled by its \<open>message\<close>.\<close>

datatype js_error = JsError (message: jsstring)

datatype 'a outcome = Returns 'a | Throws js_error

text \<open>
  \<open>[...new Set(xs)]\<close> and \<open>Array.from(new Set(xs))\<close>: a Set keeps its members in
  insertion order, and adding a member that is present changes nothing.
\<close>

definition Set_add :: "'a list \<Rightarrow> 'a \<Rightarrow> 'a list" where
  "Set_add acc x = (if x \<in> set acc then acc else acc @ [x])"

definition new_Set :: "'a list \<Rightarrow> 'a list" where
  "new_Set xs = foldl Set_add [] xs"

section \<open>utils.js\<close>

subsection \<open>createDiagnostics\<close>

text \<open>
  An entry of \<open>diagnostics.steps\<close> is an object; it is modelled as a map from property
  names to values (the order of the properties is not modelled). The object spread
  \<open>{timestamp: ..., step, ...details}\<close> first sets \<open>timestamp\<close> and \<open>step\<close> and then
  copies every property of \<open>details\<close>, so a property of \<open>details\<close> wins.
\<close>

type_synonym jsobject = "jsstring \<rightharpoonup> jsval"

record diagnostics =
  sessionId :: jsstring
  steps :: "jsobject list"
  screenshots :: "jsval list"

definition createDiagnostics :: "jsstring \<Rightarrow> diagnostics" where
  "createDiagnostics sid = \<lparr>sessionId = sid, steps = [], screenshots = []\<rparr>"

definition step_entry :: "jsstring \<Rightarrow> jsstring \<Rightarrow> jsobject \<Rightarrow> jsobject" where
  "step_entry now step details =
     [str ''timestamp'' \<mapsto> JStr now, str ''step'' \<mapsto> JStr step] ++ details"

text \<open>
  \<open>addStep(step, details = {})\<close>; \<open>now\<close> is what \<open>new Date().toISOString()\<close> returns
  at the call. The default parameter is the empty object.
\<close>

definition addStep :: "jsstring \<Rightarrow> jsstring \<Rightarrow> jsobject option \<Rightarrow> diagnostics \<Rightarrow> diagnostics" where
  "addStep now step details d =
     d\<lparr>steps := steps d @
        [step_entry now step (case details of None \<Rightarrow> Map.empty | Some o' \<Rightarrow> o')]\<rparr>"

subsection \<open>isValidBookingUrl\<close>

definition hotel_marker :: jsstring where
  "hotel_marker = str ''booking.com/hotel''"

text \<open>
  \<open>url.includes(t)\<close>: a string has \<open>String.prototype.includes\<close>, an array has
  \<open>Array.prototype.includes\<close> (some element is the string \<open>t\<close>); on any other
  truthy value \<open>url.includes\<close> is not a function and the call throws a TypeError.
\<close>

definition not_a_function :: js_error where
  "not_a_function = JsError (str ''url.includes is not a function'')"

fun call_includes :: "jsval \<Rightarrow> jsstring \<Rightarrow> jsval outcome" where
  "call_includes (JStr s) t = Returns (JBool (js_includes s t))"
| "call_includes (JArr xs) t = Returns (JBool (JStr t \<in> set xs))"
| "call_includes v t = Throws not_a_function"

text \<open>
  \<open>return url && url.includes("booking.com/hotel")\<close>: a falsy \<open>url\<close> is returned as
  it is.
\<close>

definition isValidBookingUrl :: "jsval \<Rightarrow> jsval outcome" where
  "isValidBookingUrl url =
     (if truthy url then call_includes url hotel_marker else Returns url)"

section \<open>extractors.js\<close>

text \<open>
  Each extractor runs a callback in the page. The page is modelled by what the
  callback's selector queries return: \<open>None\<close> where \<open>querySelector\<close> returns
  \<open>null\<close>, and the \<open>textContent\<close> of the element otherwise.
\<close>

definition text_or_empty :: "jsstring option \<Rightarrow> jsstring" where
  \<comment> \<open>\<open>el?.textContent.trim() || ""\<close>\<close>
  "text_or_empty el = (case el of None \<Rightarrow> [] | Some t \<Rightarrow> trim t)"

subsection \<open>extractRating\<close>

text \<open>
  \<open>parseInt(ds, 10)\<close> on a string of decimal digits; the empty string gives \<open>NaN\<close>.
  The number is the decimal reading of the digits (the rounding of a JavaScript number
  above \<open>2^53\<close> is not modelled).
\<close>

datatype jsnum = NaN | Num nat

definition digits_value :: "jsstring \<Rightarrow> nat" where
  "digits_value ds = foldl (\<lambda>n c. 10 * n + (c - 48)) 0 ds"

definition parseInt :: "jsstring \<Rightarrow> jsnum" where
  "parseInt ds = (if ds = [] then NaN else Num (digits_value ds))"

record rating =
  score :: "jsstring option"
  totalReviews :: "jsnum option"

definition comma :: jsstring where "comma = str '',''"
definition period :: jsstring where "period = str ''.''"

definition digit_or_space :: "codeunit \<Rightarrow> bool" where
  "digit_or_space c \<longleftrightarrow> is_digit c \<or> is_space c"

definition match_digits_spaces :: "jsstring \<Rightarrow> jsstring option" where
  \<comment> \<open>\<open>text.match(/[\d\s]+/)\<close>: the leftmost, longest run\<close>
  "match_digits_spaces t =
     (let r = dropWhile (\<lambda>c. \<not> digit_or_space c) t
      in if r = [] then None else Some (takeWhile digit_or_space r))"

text \<open>
  The score container as the callback finds it: \<open>None\<close> when \<open>querySelector\<close>
  returns \<open>null\<close>, and otherwise one read per \<open>div[aria-hidden="true"]\<close> in it. A
  read is what evaluating \<open>div.textContent\<close> gives: the text of the element, or
  the error the read throws. On a standard DOM every read returns; a read that throws stands
  for any error inside the \<open>try\<close> block, so that the \<open>catch\<close> branch of the source is
  a branch of the model.
\<close>

type_synonym text_read = "jsstring outcome"

text \<open>
  \<open>Array.from(...).map((div) => div.textContent.trim().replace(",", "."))\<close>: the
  texts are read in order, and the first read that throws ends the \<open>map\<close>.
\<close>

fun map_elements :: "text_read list \<Rightarrow> jsstring list outcome" where
  "map_elements [] = Returns []"
| "map_elements (r # rs) =
     (case r of
        Throws err \<Rightarrow> Throws err
      | Returns t \<Rightarrow>
          (case map_elements rs of
             Throws err \<Rightarrow> Throws err
           | Returns es \<Rightarrow> Returns (replace_first (trim t) comma period # es)))"

definition null_rating :: rating where
  "null_rating = \<lparr>score = None, totalReviews = None\<rparr>"

definition rating_try :: "text_read list option \<Rightarrow> rating outcome" where
  \<comment> \<open>the \<open>try\<close> block of the callback\<close>
  "rating_try scoreContainer =
     (case scoreContainer of
        None \<Rightarrow> Returns null_rating
      | Some divs \<Rightarrow>
          (case map_elements divs of
             Throws err \<Rightarrow> Throws err
           | Returns elements \<Rightarrow>
               (let text = (if 1 < length elements then elements ! 1 else []);
                    m = match_digits_spaces text
                in Returns
                     \<lparr>score = (if elements \<noteq> [] \<and> elements ! 0 \<noteq> []
                               then Some (elements ! 0) else None),
                      totalReviews =
                        (case m of None \<Rightarrow> None
                         | Some r \<Rightarrow> Some (parseInt (filter (\<lambda>c. \<not> is_space c) r)))\<rparr>)))"

definition rating_callback :: "text_read list option \<Rightarrow> rating" where
  \<comment> \<open>the callback: \<open>try { ... } catch { return { score: null, totalReviews: null } }\<close>\<close>
  "rating_callback scoreContainer =
     (case rating_try scoreContainer of
        Returns r \<Rightarrow> r
      | Throws err \<Rightarrow> null_rating)"

text \<open>
  \<open>page.evaluate(callback)\<close>: the promise resolves with what the callback returns,
  or rejects with the error of the browser (\<open>rejection\<close>) when the call itself fails,
  for instance because the page has navigated away.
\<close>

definition page_evaluate :: "js_error option \<Rightarrow> 'a \<Rightarrow> 'a outcome" where
  "page_evaluate rejection result =
     (case rejection of Some err \<Rightarrow> Throws err | None \<Rightarrow> Returns result)"

definition extractRating :: "js_error option \<Rightarrow> text_read list option \<Rightarrow> rating outcome" where
  "extractRating rejection scoreContainer =
     page_evaluate rejection (rating_callback scoreContainer)"

subsection \<open>extractFeatures\<close>

definition extractFeatures :: "jsstring list \<Rightarrow> jsstring list" where
  "extractFeatures spans = new_Set (map trim spans)"

subsection \<open>extractRooms\<close>

definition max300 :: jsstring where "max300 = str ''max300''"
definition max1024x768 :: jsstring where "max1024x768 = str ''max1024x768''"

definition url_open :: jsstring where "url_open = str ''url('' @ [34]"
definition url_close :: jsstring where "url_close = 34 # str '')''"

text \<open>
  \<open>style.match(/url\("(.+?)"\)/)\<close>: after \<open>url("\<close> the lazy group takes one
  character that is no line terminator, then as few more as needed to reach \<open>")\<close>.
\<close>

fun lazy_group :: "jsstring \<Rightarrow> jsstring option" where
  "lazy_group [] = None"
| "lazy_group (c # cs) =
     (if is_line_terminator c then None
      else if prefix url_close cs then Some [c]
      else map_option ((#) c) (lazy_group cs))"

fun match_url :: "jsstring \<Rightarrow> jsstring option" where
  "match_url [] = None"
| "match_url (c # cs) =
     (if prefix url_open (c # cs) then
        (case lazy_group (drop (length url_open) (c # cs)) of
           Some u \<Rightarrow> Some u
         | None \<Rightarrow> match_url cs)
      else match_url cs)"

text \<open>
  \<open>label.match(/(\d+)\s+adult/i)\<close>, group 1: a run of digits, at least one white
  space, then \<open>adult\<close> in either case. A match that starts at a digit takes the whole
  run of digits that follows, since a shorter one is followed by a digit.
\<close>

fun match_adult :: "jsstring \<Rightarrow> jsstring option" where
  "match_adult [] = None"
| "match_adult (c # cs) =
     (let ds = takeWhile is_digit (c # cs);
          r1 = dropWhile is_digit (c # cs);
          r2 = dropWhile is_space r1
      in if ds \<noteq> [] \<and> length r2 < length r1 \<and> prefix_ci (str ''adult'') r2
         then Some ds else match_adult cs)"

record room =
  room_name :: jsstring
  room_maxOccupancy :: "jsnum option"
  room_description :: jsstring
  room_images :: "jsstring list"
  room_size :: jsstring
  room_amenities :: "jsstring list"

text \<open>
  The detail panel \<open>[data-testid="rp-content"]\<close> as found after the click on a row and
  the settle delay: the texts of its description and size elements, of its amenity
  badges, the \<open>style.backgroundImage\<close> of its photo elements, and whether the document
  has a \<open>[aria-label="Close banner"]\<close> control.
\<close>

record popup =
  rp_description :: "jsstring option"
  rp_room_size :: "jsstring option"
  rp_badges :: "jsstring list"
  rp_photos :: "jsstring list"
  close_banner :: bool

text \<open>
  A row of \<open>.roomstable tr\<close>: the text of its \<open>a span\<close>, the \<open>aria-label\<close> of its
  occupancy element, and the panel the page shows once the name is clicked.
\<close>

record room_row =
  nameEl :: "jsstring option"
  occupancyEl :: "jsstring option"
  popup_after_click :: "popup option"

datatype ui_event = Click_name nat | Delay nat | Click_close

definition room_images_of :: "jsstring list \<Rightarrow> jsstring list" where
  "room_images_of photos =
     new_Set (map (\<lambda>url. replace_first url max300 max1024x768)
                  (List.map_filter match_url photos))"

definition room_of :: "jsstring \<Rightarrow> jsstring \<Rightarrow> popup \<Rightarrow> room" where
  "room_of nameText label p =
     \<lparr>room_name = trim nameText,
      room_maxOccupancy = map_option parseInt (match_adult label),
      room_description = text_or_empty (rp_description p),
      room_images = room_images_of (rp_photos p),
      room_size = text_or_empty (rp_room_size p),
      room_amenities = new_Set (map trim (rp_badges p))\<rparr>"

text \<open>
  The loop over the rows; \<open>i\<close> is the position of the row in the table. The result is
  the \<open>results\<close> array and the clicks and delays performed, in order.
\<close>

fun rooms_loop :: "nat \<Rightarrow> room_row list \<Rightarrow> room list \<times> ui_event list" where
  "rooms_loop i [] = ([], [])"
| "rooms_loop i (row # rows) =
     (let (rs, ev) = rooms_loop (Suc i) rows
      in case (nameEl row, occupancyEl row) of
           (Some nameText, Some label) \<Rightarrow>
             (case popup_after_click row of
                None \<Rightarrow> (rs, Click_name i # Delay 1000 # ev)
              | Some p \<Rightarrow>
                  (room_of nameText label p # rs,
                   Click_name i # Delay 1000 #
                   (if close_banner p then [Click_close] else []) @ Delay 500 # ev))
         | _ \<Rightarrow> (rs, ev))"

definition extractRooms :: "room_row list \<Rightarrow> room list \<times> ui_event list" where
  "extractRooms roomRows = rooms_loop 0 roomRows"

subsection \<open>extractReviews\<close>

record review =
  review_name :: jsstring
  review_country :: jsstring
  review_text :: jsstring

record review_block =
  avatar_name :: "jsstring option"
  avatar_country :: "jsstring option"
  featuredreview_text :: "jsstring option"

definition opening_mark :: "codeunit \<Rightarrow> bool" where
  "opening_mark c \<longleftrightarrow> is_space c \<or> c = 8220 \<or> c = 34 \<or> c = 171 \<or> c = 187"

definition closing_mark :: "codeunit \<Rightarrow> bool" where
  "closing_mark c \<longleftrightarrow> is_space c \<or> c = 8221 \<or> c = 34 \<or> c = 171 \<or> c = 187"

definition strip_quotes :: "jsstring \<Rightarrow> jsstring" where
  \<comment> \<open>the \<open>replace\<close> with the two anchored character classes and the \<open>g\<close> flag\<close>
  "strip_quotes s = rev (dropWhile closing_mark (rev (dropWhile opening_mark s)))"

definition review_of :: "review_block \<Rightarrow> review" where
  "review_of b =
     \<lparr>review_name = text_or_empty (avatar_name b),
      review_country = text_or_empty (avatar_country b),
      review_text =
        (case featuredreview_text b of None \<Rightarrow> [] | Some t \<Rightarrow> strip_quotes (trim t))\<rparr>"

text \<open>
  \<open>xs.filter(x => { if (seen.has(key(x))) return false; seen.add(key(x)); return true })\<close>
  with the Set \<open>seen\<close> threaded through the calls of the predicate.
\<close>

fun filter_seen :: "('a \<Rightarrow> 'k) \<Rightarrow> 'k set \<Rightarrow> 'a list \<Rightarrow> 'a list" where
  "filter_seen key seen [] = []"
| "filter_seen key seen (x # xs) =
     (if key x \<in> seen then filter_seen key seen xs
      else x # filter_seen key (insert (key x) seen) xs)"

definition extractReviews :: "review_block list \<Rightarrow> review list" where
  "extractReviews blocks = filter_seen review_text {} (map review_of blocks)"

subsection \<open>extractNearbyPlaces\<close>

record place =
  poi_place :: jsstring
  poi_distance :: jsstring
  poi_type :: jsstring

record poi_item =
  item_name :: "jsstring option"
  item_distance :: "jsstring option"

record poi_block =
  heading :: "jsstring option"
  items :: "poi_item list"

definition category_words :: "jsstring list" where
  "category_words = [str ''Restaurant'', str ''Train'', str ''Airport'']"

text \<open>
  \<open>place.replace(/^(Restaurant|Train|Airport)\s*/i, "")\<close>: the alternatives are tried
  in order at the start of the string, and the white space after the word is removed.
\<close>

fun strip_category :: "jsstring list \<Rightarrow> jsstring \<Rightarrow> jsstring" where
  "strip_category [] s = s"
| "strip_category (w # ws) s =
     (if prefix_ci w s then dropWhile is_space (drop (length w) s)
      else strip_category ws s)"

text \<open>The name begins with one of the category words, in either case.\<close>

definition starts_with_category :: "jsstring \<Rightarrow> bool" where
  "starts_with_category s = list_ex (\<lambda>w. prefix_ci w s) category_words"

definition place_key :: "place \<Rightarrow> jsstring" where
  \<comment> \<open>the template \<open>`${item.place}|${item.distance}`\<close>\<close>
  "place_key p = poi_place p @ str ''|'' @ poi_distance p"

text \<open>
  \<open>lower\<close> stands for \<open>String.prototype.toLowerCase\<close>, whose table of Unicode case
  mappings is not part of this repository.
\<close>

definition place_of :: "jsstring \<Rightarrow> poi_item \<Rightarrow> place" where
  "place_of ty item =
     \<lparr>poi_place = strip_category category_words (text_or_empty (item_name item)),
      poi_distance = text_or_empty (item_distance item),
      poi_type = ty\<rparr>"

definition places_of_block :: "(jsstring \<Rightarrow> jsstring) \<Rightarrow> poi_block \<Rightarrow> place list" where
  "places_of_block lower block =
     (let ty = (case heading block of None \<Rightarrow> [] | Some h \<Rightarrow> lower (trim h))
      in map (place_of ty) (items block))"

definition extractNearbyPlaces :: "(jsstring \<Rightarrow> jsstring) \<Rightarrow> poi_block list \<Rightarrow> place list" where
  "extractNearbyPlaces lower poiBlocks =
     filter_seen place_key {} (concat (map (places_of_block lower) poiBlocks))"

subsection \<open>extractHotelData\<close>

record hotelData =
  hotelName :: "jsstring option"
  address :: "jsstring option"
  description :: jsstring
  rating :: rating
  galleryImages :: "jsstring list"
  features :: "jsstring list"
  rooms :: "room list"
  reviews :: "review list"
  checkin :: "jsstring option"
  checkout :: "jsstring option"
  nearbyPlaces :: "place list"

text \<open>
  The loaded page. For the four extractors that only read a text (name, address,
  description, check-in and check-out times) the record holds what their callback
  returns; for the others it holds the elements their callback reads.
  \<open>parallel_rejection\<close> is the error of the first \<open>page.evaluate\<close> of the
  \<open>Promise.all\<close> that rejects, if one does, and \<open>rooms_rejection\<close> that of the
  \<open>page.evaluate\<close> of \<open>extractRooms\<close>. When none rejects, every extractor
  resolves with what its callback returns.
\<close>

record page =
  hotelName_result :: "jsstring option"
  address_result :: "jsstring option"
  description_result :: jsstring
  checkTimes_result :: "jsstring option \<times> jsstring option"
  scoreContainer :: "text_read list option"
  feature_spans :: "jsstring list"
  featuredreviews :: "review_block list"
  poi_blocks :: "poi_block list"
  roomstable :: "room_row list"
  parallel_rejection :: "js_error option"
  rooms_rejection :: "js_error option"

text \<open>
  The logger passed as \<open>logStep\<close> is \<open>addStep\<close>; the model passes it as a function on
  the diagnostics, which reads the clock itself.
\<close>

type_synonym logger = "jsstring \<Rightarrow> jsobject option \<Rightarrow> diagnostics \<Rightarrow> diagnostics"

definition js_length :: "'a list \<Rightarrow> jsval" where
  "js_length xs = JNum (int (length xs))"

definition not_not :: "jsstring option \<Rightarrow> jsval" where
  \<comment> \<open>\<open>!!x\<close> for a string or \<open>null\<close>\<close>
  "not_not x = JBool (case x of None \<Rightarrow> False | Some t \<Rightarrow> t \<noteq> [])"

definition extraction_failed :: "logger \<Rightarrow> js_error \<Rightarrow> diagnostics \<Rightarrow> hotelData outcome \<times> diagnostics" where
  \<comment> \<open>the \<open>catch\<close> block: log and throw again\<close>
  "extraction_failed logStep e d =
     (Throws e,
      logStep (str ''Error during extraction'') (Some [str ''message'' \<mapsto> JStr (message e)]) d)"

definition extractHotelData ::
  "(jsstring \<Rightarrow> jsstring) \<Rightarrow> page \<Rightarrow> logger \<Rightarrow> diagnostics \<Rightarrow> hotelData outcome \<times> diagnostics" where
  "extractHotelData lower pg logStep d0 =
     (let d1 = logStep (str ''Extracting data in parallel'') None d0
      in case parallel_rejection pg of
           Some e \<Rightarrow> extraction_failed logStep e d1
         | None \<Rightarrow>
            (let hdata = \<lparr>hotelName = hotelName_result pg,
                       address = address_result pg,
                       description = description_result pg,
                       rating = rating_callback (scoreContainer pg),
                       galleryImages = [],
                       features = extractFeatures (feature_spans pg),
                       rooms = [],
                       reviews = extractReviews (featuredreviews pg),
                       checkin = fst (checkTimes_result pg),
                       checkout = snd (checkTimes_result pg),
                       nearbyPlaces = extractNearbyPlaces lower (poi_blocks pg)\<rparr>;
                 d2 = logStep (str ''Parallel extraction complete'')
                        (Some [str ''hotelName'' \<mapsto> not_not (hotelName hdata),
                               str ''address'' \<mapsto> not_not (address hdata),
                               str ''features'' \<mapsto> js_length (features hdata),
                               str ''reviews'' \<mapsto> js_length (reviews hdata)]) d1;
                 d3 = logStep (str ''Extracting rooms'') None d2
             in case rooms_rejection pg of
                  Some e \<Rightarrow> extraction_failed logStep e d3
                | None \<Rightarrow>
                    (let hdata' = hdata\<lparr>rooms := fst (extractRooms (roomstable pg))\<rparr>
                     in (Returns hdata',
                         logStep (str ''Rooms extracted'')
                           (Some [str ''count'' \<mapsto> js_length (rooms hdata')]) d3))))"

section \<open>scraper.js\<close>

text \<open>
  What the browser and the site do during one call of \<open>scrapeHotelData\<close>: the outcome
  of each awaited call and the value of each read, in the order of the source.
  \<open>configure\<close> stands for the calls between \<open>newPage\<close> and \<open>goto\<close>
  (\<open>setupAntiDetection\<close>, viewport, user agent, headers, timeouts, request
  interception), which add no diagnostic step. \<open>requests\<close> are the requests the
  page has issued when the gallery is merged. The steps that the dialog and
  redirect listeners add between the steps of the main line are not modelled.
\<close>

record request =
  resourceType :: jsstring
  request_url :: jsstring

record env =
  session_start :: jsstring
  timestamps :: "nat \<Rightarrow> jsstring"
  error_stack :: "js_error \<Rightarrow> jsval"
  toLowerCase :: "jsstring \<Rightarrow> jsstring"
  launch :: "unit outcome"
  newPage :: "unit outcome"
  configure :: "unit outcome"
  requests :: "request list"
  goto :: "nat option outcome"
  url_at_response :: jsstring
  title_wait :: "unit outcome"
  url_after_wait :: jsstring
  captcha_navigation :: "unit outcome"
  url_after_captcha :: jsstring
  url_at_end :: jsstring
  body_wait :: "unit outcome"
  autoScroll :: "unit outcome"
  tab_click :: "jsstring \<Rightarrow> unit outcome"
  loaded_page :: page
  close :: "unit outcome"

datatype effect = Browser_launched | Goto_called jsval | Close_called

text \<open>
  The state of one call: the diagnostics object, whether the variable \<open>browser\<close>
  holds a browser, and the calls made on the browser so far.
\<close>

record scrape_state =
  diag :: diagnostics
  browser :: bool
  effects :: "effect list"

definition log_step :: "env \<Rightarrow> logger" where
  \<comment> \<open>\<open>addStep\<close> of this session, with the clock read at the call\<close>
  "log_step e step details d = addStep (timestamps e (length (steps d))) step details d"

definition log :: "env \<Rightarrow> jsstring \<Rightarrow> jsobject option \<Rightarrow> scrape_state \<Rightarrow> scrape_state" where
  "log e step details st = st\<lparr>diag := log_step e step details (diag st)\<rparr>"

subsection \<open>The request listener\<close>

datatype request_action = Abort | Continue

definition gallery_prefix :: jsstring where
  "gallery_prefix = str ''https://cf.bstatic.com/xdata/images/hotel/max300''"

definition on_request :: "request \<Rightarrow> jsstring list \<Rightarrow> request_action \<times> jsstring list" where
  "on_request req imgs =
     (if resourceType req = str ''font'' \<or>
         js_includes (request_url req) (str ''analytics'') \<or>
         js_includes (request_url req) (str ''tracking'') \<or>
         js_includes (request_url req) (str ''telemetry'')
      then (Abort, imgs)
      else if resourceType req = str ''image'' \<and> js_includes (request_url req) gallery_prefix
      then (Continue, imgs @ [replace_first (request_url req) max300 max1024x768])
      else (Continue, imgs))"

definition collected_images :: "request list \<Rightarrow> jsstring list" where
  \<comment> \<open>the array \<open>galleryImages\<close> after the listener has seen the requests\<close>
  "collected_images reqs = foldl (\<lambda>imgs req. snd (on_request req imgs)) [] reqs"

subsection \<open>loadDynamicContent\<close>

definition attr_selector :: "string \<Rightarrow> jsstring" where
  \<comment> \<open>the selector \<open>a[href="..."]\<close>\<close>
  "attr_selector target = str ''a[href='' @ [34] @ str target @ [34] @ str '']''"

definition tabs :: "(jsstring \<times> jsstring) list" where
  "tabs = [(attr_selector ''#rooms'', str ''Rooms''),
           (attr_selector ''#facilities'', str ''Facilities''),
           (attr_selector ''#reviews'', str ''Reviews'')]"

text \<open>
  For each tab, \<open>tab_click\<close> is the outcome of waiting for the selector, clicking it
  and the delay; a failure is logged and the loop goes on.
\<close>

definition loadDynamicContent :: "env \<Rightarrow> scrape_state \<Rightarrow> scrape_state" where
  "loadDynamicContent e st =
     foldl (\<lambda>s (selector, name).
              case tab_click e selector of
                Returns _ \<Rightarrow> s
              | Throws err \<Rightarrow>
                  log e (str ''Could not click '' @ name @ str '' tab'')
                    (Some [str ''error'' \<mapsto> JStr (message err)]) s)
           st tabs"

subsection \<open>scrapeHotelData\<close>

datatype scrape_result = Success hotelData | Failure jsstring

definition access_denied :: js_error where
  "access_denied = JsError (str ''Access denied (403) - Bot detection likely triggered'')"

definition not_found :: js_error where
  "not_found = JsError (str ''Page not found (404)'')"

definition no_response :: js_error where
  "no_response = JsError (str ''No response from server'')"

definition wrong_page :: "jsstring \<Rightarrow> js_error" where
  "wrong_page finalUrl = JsError (str ''Final URL is not a hotel page: '' @ finalUrl)"

definition check_status :: "nat \<Rightarrow> js_error option" where
  \<comment> \<open>the block under \<open>// Check HTTP status\<close>: the error it throws, if any\<close>
  "check_status status =
     (if status \<noteq> 200 then
        (if status = 403 then Some access_denied
         else if status = 404 then Some not_found
         else None)
      else None)"

definition hotelData_keys :: jsval where
  "hotelData_keys = JArr (map (\<lambda>k. JStr (str k))
     [''hotelName'', ''address'', ''description'', ''rating'', ''galleryImages'', ''features'',
      ''rooms'', ''reviews'', ''checkin'', ''checkout'', ''nearbyPlaces''])"

definition extract_phase :: "env \<Rightarrow> scrape_state \<Rightarrow> hotelData outcome \<times> scrape_state" where
  \<comment> \<open>from \<open>// Wait for content and scroll\<close> to the \<open>return\<close> of the \<open>try\<close> block\<close>
  "extract_phase e st0 =
     (let st1 = log e (str ''Waiting for content to load'') None st0
      in case body_wait e of
           Throws err \<Rightarrow> (Throws err, st1)
         | Returns _ \<Rightarrow>
            (let st2 = log e (str ''Scrolling page'') None st1
             in case autoScroll e of
                  Throws err \<Rightarrow> (Throws err, st2)
                | Returns _ \<Rightarrow>
                   (let st3 = loadDynamicContent e st2;
                        st4 = log e (str ''Extracting data'') None st3
                    in case extractHotelData (toLowerCase e) (loaded_page e) (log_step e) (diag st4) of
                         (Throws err, d) \<Rightarrow> (Throws err, st4\<lparr>diag := d\<rparr>)
                       | (Returns hdata, d) \<Rightarrow>
                          (let hdata' = hdata\<lparr>galleryImages := new_Set (collected_images (requests e))\<rparr>;
                               st5 = log e (str ''Extraction complete'')
                                       (Some [str ''dataFields'' \<mapsto> hotelData_keys,
                                              str ''hasRooms'' \<mapsto> JBool (0 < length (rooms hdata')),
                                              str ''hasReviews'' \<mapsto> JBool (0 < length (reviews hdata'))])
                                       (st4\<lparr>diag := d\<rparr>)
                           in (Returns hdata', st5)))))"

definition soft_block_phase :: "env \<Rightarrow> jsval \<Rightarrow> scrape_state \<Rightarrow> hotelData outcome \<times> scrape_state" where
  \<comment> \<open>from \<open>// Check for captcha or redirect\<close> to the check of the final URL\<close>
  "soft_block_phase e url st0 =
     (let currentUrl = url_after_wait e;
          st1 =
            (if js_includes currentUrl (str ''captcha'') \<or> \<not> js_includes currentUrl hotel_marker
             then
               (let s1 = log e (str ''Redirect or captcha detected'')
                           (Some [str ''originalUrl'' \<mapsto> url,
                                  str ''currentUrl'' \<mapsto> JStr currentUrl]) st0
                in if js_includes currentUrl (str ''captcha'') then
                     (let s2 = log e (str ''Captcha detected - waiting for resolution'') None s1
                      in case captcha_navigation e of
                           Returns _ \<Rightarrow>
                             log e (str ''Navigation after captcha'')
                               (Some [str ''url'' \<mapsto> JStr (url_after_captcha e)]) s2
                         | Throws _ \<Rightarrow>
                             log e (str ''Timeout waiting for captcha resolution'') None s2)
                   else s1)
             else st0);
          finalUrl = url_at_end e;
          st2 = log e (str ''Final URL'') (Some [str ''url'' \<mapsto> JStr finalUrl]) st1
      in if \<not> js_includes finalUrl hotel_marker then (Throws (wrong_page finalUrl), st2)
         else extract_phase e st2)"

definition navigate_phase :: "env \<Rightarrow> jsval \<Rightarrow> scrape_state \<Rightarrow> hotelData outcome \<times> scrape_state" where
  \<comment> \<open>from \<open>// Navigate to URL\<close> to the check of the HTTP status\<close>
  "navigate_phase e url st0 =
     (let st1 = log e (str ''Navigating to URL'') (Some [str ''url'' \<mapsto> url])
                  (st0\<lparr>effects := effects st0 @ [Goto_called url]\<rparr>)
      in case goto e of
           Throws err \<Rightarrow> (Throws err, st1)
         | Returns None \<Rightarrow> (Throws no_response, st1)
         | Returns (Some status) \<Rightarrow>
            (let st2 = log e (str ''Response received'')
                         (Some [str ''status'' \<mapsto> JNum (int status),
                                str ''url'' \<mapsto> JStr (url_at_response e)]) st1;
                 st3 = (case title_wait e of
                          Returns _ \<Rightarrow> st2
                        | Throws _ \<Rightarrow>
                            log e (str ''Warning: Could not find hotel title selector, continuing anyway'')
                              None st2)
             in case check_status status of
                  Some err \<Rightarrow> (Throws err, st3)
                | None \<Rightarrow> soft_block_phase e url st3))"

definition try_block :: "env \<Rightarrow> jsval \<Rightarrow> scrape_state \<Rightarrow> hotelData outcome \<times> scrape_state" where
  "try_block e url st0 =
     (let st1 = log e (str ''Initialization'') (Some [str ''url'' \<mapsto> url]) st0
      in case launch e of
           Throws err \<Rightarrow> (Throws err, st1)
         | Returns _ \<Rightarrow>
            (let st2 = log e (str ''Browser launched'') None
                         (st1\<lparr>browser := True, effects := effects st1 @ [Browser_launched]\<rparr>)
             in case newPage e of
                  Throws err \<Rightarrow> (Throws err, st2)
                | Returns _ \<Rightarrow>
                   (case configure e of
                      Throws err \<Rightarrow> (Throws err, st2)
                    | Returns _ \<Rightarrow> navigate_phase e url st2)))"

definition catch_block :: "env \<Rightarrow> hotelData outcome \<times> scrape_state \<Rightarrow> scrape_result \<times> scrape_state" where
  "catch_block e r =
     (case r of
        (Returns hdata, st) \<Rightarrow> (Success hdata, st)
      | (Throws err, st) \<Rightarrow>
          (Failure (message err),
           log e (str ''Error'')
             (Some [str ''message'' \<mapsto> JStr (message err),
                    str ''stack'' \<mapsto> error_stack e err]) st))"

definition finally_block :: "env \<Rightarrow> scrape_result \<times> scrape_state \<Rightarrow> scrape_result outcome \<times> scrape_state" where
  "finally_block e r =
     (case r of (res, st) \<Rightarrow>
        if browser st then
          (let st' = log e (str ''Closing browser'') None st;
               st'' = st'\<lparr>effects := effects st' @ [Close_called]\<rparr>
           in case close e of
                Returns _ \<Rightarrow> (Returns res, st'')
              | Throws err \<Rightarrow> (Throws err, st''))
        else (Returns res, st))"

text \<open>
  The result is what the promise settles to, with the final state: its \<open>diag\<close> is the
  object the result refers to as \<open>diagnostics\<close>.
\<close>

definition scrapeHotelData :: "env \<Rightarrow> jsval \<Rightarrow> scrape_result outcome \<times> scrape_state" where
  "scrapeHotelData e url =
     finally_block e (catch_block e (try_block e url
       \<lparr>diag = createDiagnostics (session_start e), browser = False, effects = []\<rparr>))"

text \<open>The promise resolves with a result whose \<open>success\<close> is \<open>true\<close>.\<close>

fun resolves_with_success :: "scrape_result outcome \<Rightarrow> bool" where
  "resolves_with_success (Returns (Success hdata)) = True"
| "resolves_with_success r = False"

text \<open>The \<open>data\<close> of the result, when the promise resolves with a success.\<close>

fun result_data :: "scrape_result outcome \<Rightarrow> hotelData option" where
  "result_data (Returns (Success hdata)) = Some hdata"
| "result_data r = None"

section \<open>server.js\<close>

text \<open>
  The JSON bodies the handler sends: \<open>{error, example}\<close> of the rejection,
  the extracted record, \<open>{error: "Scraping failed", details, diagnostics}\<close>, and
  \<open>{error: "An error occurred during scraping", details}\<close> of the handler's own
  \<open>catch\<close>. The two fixed \<open>error\<close> texts are part of the constructors.
\<close>

datatype response_body =
    Invalid_url jsstring jsstring
  | Hotel_data hotelData
  | Scraping_failed jsstring diagnostics
  | Handler_error jsstring

record response =
  status :: nat
  body :: response_body

definition invalid_url_response :: response where
  "invalid_url_response =
     \<lparr>status = 400,
      body = Invalid_url
        (str ''Invalid URL. Please provide a valid Booking.com hotel profile URL.'')
        (str ''https://www.booking.com/hotel/xx/hotel-name.html'')\<rparr>"

definition handler_error_response :: "js_error \<Rightarrow> response" where
  "handler_error_response err = \<lparr>status = 500, body = Handler_error (message err)\<rparr>"

text \<open>
  \<open>const { url } = req.body\<close>, applied to the value of \<open>req.body\<close>: the parsed
  JSON, or \<open>undefined\<close> when the middleware has parsed nothing and leaves \<open>req.body\<close>
  unset. Destructuring \<open>undefined\<close> or \<open>null\<close> throws a TypeError; an object gives
  its property \<open>url\<close> (the last one, where the JSON text repeats the key) or
  \<open>undefined\<close>; any other value has no such property.
\<close>

definition cannot_destructure :: js_error where
  "cannot_destructure = JsError (str ''Cannot destructure property url of req.body'')"

fun destructure_url :: "jsval \<Rightarrow> jsval outcome" where
  "destructure_url JUndefined = Throws cannot_destructure"
| "destructure_url JNull = Throws cannot_destructure"
| "destructure_url (JObj props) =
     Returns (case map_of (rev props) (str ''url'') of None \<Rightarrow> JUndefined | Some v \<Rightarrow> v)"
| "destructure_url v = Returns JUndefined"

text \<open>
  The handler of \<open>POST /scrape\<close>, whose body is one \<open>try\<close> block: every error thrown
  in it, by the destructuring, by the validation or by the scraper, is answered by
  the \<open>catch\<close> with status 500. \<open>scrape\<close> is \<open>scrapeHotelData\<close>. The result is the
  response and the list of the arguments \<open>scrape\<close> was called with.
\<close>

definition post_scrape ::
  "(jsval \<Rightarrow> scrape_result outcome \<times> scrape_state) \<Rightarrow> jsval \<Rightarrow> response \<times> jsval list" where
  "post_scrape scrape req_body =
     (case destructure_url req_body of
        Throws err \<Rightarrow> (handler_error_response err, [])
      | Returns url \<Rightarrow>
         (case isValidBookingUrl url of
            Throws err \<Rightarrow> (handler_error_response err, [])
          | Returns valid \<Rightarrow>
              if \<not> truthy valid then (invalid_url_response, [])
              else
                (case scrape url of
                   (Throws err, st) \<Rightarrow> (handler_error_response err, [url])
                 | (Returns (Success hdata), st) \<Rightarrow>
                     (\<lparr>status = 200, body = Hotel_data hdata\<rparr>, [url])
                 | (Returns (Failure details), st) \<Rightarrow>
                     (\<lparr>status = 500, body = Scraping_failed details (diag st)\<rparr>, [url]))))"

section \<open>Example inputs\<close>

text \<open>
  Concrete pages, environments and URLs at which the properties below are evaluated.
  \<open>ascii_lower\<close> agrees with \<open>toLowerCase\<close> on ASCII text.
\<close>

definition hotel_url :: jsstring where
  "hotel_url = str ''https://www.booking.com/hotel/ma/riad-verus.en-gb.html''"

definition ascii_lower :: "jsstring \<Rightarrow> jsstring" where
  "ascii_lower s = map (\<lambda>c. if 65 \<le> c \<and> c \<le> 90 then c + 32 else c) s"

definition background :: "string \<Rightarrow> jsstring" where
  "background u = url_open @ str u @ url_close"

definition sample_popup :: popup where
  "sample_popup =
     \<lparr>rp_description = Some (str '' Quiet room ''),
      rp_room_size = Some (str ''25 m2''),
      rp_badges = [str ''Air conditioning'', str ''Air conditioning''],
      rp_photos = [background ''https://cf.bstatic.com/xdata/images/hotel/max300/7.jpg''],
      close_banner = True\<rparr>"

definition sample_rows :: "room_row list" where
  "sample_rows =
     [\<lparr>nameEl = Some (str ''Double Room''), occupancyEl = None,
       popup_after_click = Some sample_popup\<rparr>,
      \<lparr>nameEl = Some (str ''Twin Room''), occupancyEl = Some (str ''Max. people: 2 adults''),
       popup_after_click = Some sample_popup\<rparr>]"

definition sample_review :: review_block where
  "sample_review =
     \<lparr>avatar_name = Some (str ''Ana''), avatar_country = Some (str ''Spain''),
      featuredreview_text = Some (str ''Great stay'')\<rparr>"

definition sample_page :: page where
  "sample_page =
     \<lparr>hotelName_result = Some (str ''Riad Verus''),
      address_result = None,
      description_result = [],
      checkTimes_result = (None, None),
      scoreContainer = Some [Returns (str ''9,2''), Returns (str ''1 234 reviews'')],
      feature_spans = [str ''Pool'', str ''Free WiFi'', str ''Pool''],
      featuredreviews = [sample_review, sample_review\<lparr>avatar_name := Some (str ''Bo'')\<rparr>],
      poi_blocks =
        [\<lparr>heading = Some (str ''Restaurants''),
          items = [\<lparr>item_name = Some (str ''Restaurant Le Jardin''),
                    item_distance = Some (str ''200 m'')\<rparr>]\<rparr>],
      roomstable = sample_rows,
      parallel_rejection = None,
      rooms_rejection = None\<rparr>"

definition gallery_request :: "string \<Rightarrow> request" where
  "gallery_request u = \<lparr>resourceType = str ''image'', request_url = str u\<rparr>"

definition sample_env :: env where
  "sample_env =
     \<lparr>session_start = str ''1700000000000'',
      timestamps = (\<lambda>n. str ''2023-11-14T22:13:20.000Z''),
      error_stack = (\<lambda>err. JStr (message err)),
      toLowerCase = ascii_lower,
      launch = Returns (),
      newPage = Returns (),
      configure = Returns (),
      requests = [gallery_request ''https://cf.bstatic.com/xdata/images/hotel/max300/1.jpg'',
                  gallery_request ''https://cf.bstatic.com/xdata/images/hotel/max300/1.jpg''],
      goto = Returns (Some 200),
      url_at_response = hotel_url,
      title_wait = Returns (),
      url_after_wait = hotel_url,
      captcha_navigation = Returns (),
      url_after_captcha = hotel_url,
      url_at_end = hotel_url,
      body_wait = Returns (),
      autoScroll = Returns (),
      tab_click = (\<lambda>selector. Returns ()),
      loaded_page = sample_page,
      close = Returns ()\<rparr>"

definition body_with_url :: "jsval \<Rightarrow> jsval" where
  \<comment> \<open>the parsed body \<open>{"url": v}\<close>\<close>
  "body_with_url v = JObj [(str ''url'', v)]"

definition foreign_url :: jsstring where
  "foreign_url = str ''https://evil.example/?next=booking.com/hotel''"




definition cafe_block :: poi_block where
  "cafe_block =
     \<lparr>heading = Some (str ''Restaurants & cafes''),
      items = [\<lparr>item_name = Some (str ''Restaurant Train Station Cafe''),
                item_distance = Some (str ''200 m'')\<rparr>]\<rparr>"

definition index_url :: jsstring where
  "index_url = str ''https://www.booking.com/index.html''"

definition blocked_env :: env where
  "blocked_env = sample_env\<lparr>goto := Returns (Some 403)\<rparr>"

definition redirected_env :: env where
  "redirected_env = sample_env\<lparr>url_after_wait := index_url, url_at_end := index_url\<rparr>"

definition context_destroyed :: js_error where
  "context_destroyed = JsError (str ''Execution context was destroyed'')"

definition broken_page_env :: env where
  "broken_page_env =
     sample_env\<lparr>loaded_page := sample_page\<lparr>rooms_rejection := Some context_destroyed\<rparr>\<rparr>"

section \<open>Properties of utils.js\<close>

lemma call_includes_true_iff:
  "call_includes url t = Returns (JBool True) \<longleftrightarrow>
     (\<exists>s. url = JStr s \<and> sublist t s) \<or> (\<exists>xs. url = JArr xs \<and> JStr t \<in> set xs)"
  by (cases url) (simp_all add: js_includes_def)

lemma isValidBookingUrl_true_iff_lemma:
  "isValidBookingUrl url = Returns (JBool True) \<longleftrightarrow>
     truthy url \<and>
     ((\<exists>s. url = JStr s \<and> sublist hotel_marker s) \<or>
      (\<exists>xs. url = JArr xs \<and> JStr hotel_marker \<in> set xs))"
  unfolding isValidBookingUrl_def
  by (cases "truthy url") (auto simp: call_includes_true_iff)

lemma foreign_valid: "isValidBookingUrl (JStr foreign_url) = Returns (JBool True)"
  by code_simp

lemma destructure_body_with_url: "destructure_url (body_with_url v) = Returns v"
  by (simp add: body_with_url_def)

lemma post_scrape_valid:
  "isValidBookingUrl url = Returns (JBool True) \<Longrightarrow>
   snd (post_scrape scrape (body_with_url url)) = [url]"
  by (simp add: post_scrape_def destructure_body_with_url
        split: prod.splits outcome.splits scrape_result.splits)

lemma step_entry_details:
  "step_entry now step details k =
     (case details k of Some v \<Rightarrow> Some v
      | None \<Rightarrow> [str ''timestamp'' \<mapsto> JStr now, str ''step'' \<mapsto> JStr step] k)"
  by (simp add: step_entry_def map_add_def split: option.splits)

lemma str_step_neq: "str ''timestamp'' \<noteq> str ''step''"
  by (simp add: str_def)

lemma property_names_differ:
  "str ''url'' \<noteq> str ''timestamp''" "str ''url'' \<noteq> str ''step''"
  by (simp_all add: str_def)

text \<open>
  Claim C10. A call of \<open>addStep\<close> appends exactly one entry to \<open>steps\<close> and leaves the
  entries before it, the session id and the screenshots as they were. The entry is the
  spread \<open>{timestamp, step, ...details}\<close>: each property of \<open>details\<close> is a property of
  the entry, and where \<open>details\<close> has no such property the entry has the timestamp
  under \<open>timestamp\<close>, the label under \<open>step\<close> and nothing else. So an ordinary payload
  is stored next to the label and the timestamp, and a payload that has a property
  \<open>step\<close> or \<open>timestamp\<close> overwrites the label or the timestamp of the entry.
\<close>

theorem addStep_appends_one_entry:
  "steps (addStep now step details d) = steps d @ [last (steps (addStep now step details d))]
   \<and> length (steps (addStep now step details d)) = Suc (length (steps d))
   \<and> take (length (steps d)) (steps (addStep now step details d)) = steps d
   \<and> sessionId (addStep now step details d) = sessionId d
   \<and> screenshots (addStep now step details d) = screenshots d
   \<and> last (steps (addStep now step details d)) k =
       (case (case details of None \<Rightarrow> Map.empty | Some payload \<Rightarrow> payload) k of
          Some v \<Rightarrow> Some v
        | None \<Rightarrow>
            if k = str ''timestamp'' then Some (JStr now)
            else if k = str ''step'' then Some (JStr step)
            else None)
   \<and> last (steps (addStep now step (Some [str ''url'' \<mapsto> u]) d)) (str ''url'') = Some u
   \<and> last (steps (addStep now step (Some [str ''url'' \<mapsto> u]) d)) (str ''step'') = Some (JStr step)
   \<and> last (steps (addStep now step (Some [str ''url'' \<mapsto> u]) d)) (str ''timestamp'')
       = Some (JStr now)
   \<and> last (steps (addStep now step None d)) (str ''step'') = Some (JStr step)
   \<and> last (steps (addStep now step None d)) (str ''timestamp'') = Some (JStr now)
   \<and> last (steps (addStep now step (Some (details'(str ''step'' \<mapsto> v))) d)) (str ''step'') = Some v
   \<and> last (steps (addStep now step (Some (details'(str ''timestamp'' \<mapsto> v))) d)) (str ''timestamp'')
       = Some v"
  using str_step_neq property_names_differ
  by (simp add: addStep_def step_entry_details split: option.splits)

section \<open>Properties of scraper.js\<close>

lemma log_browser [simp]: "browser (log e s det st) = browser st"
  by (simp add: log_def)

lemma log_effects [simp]: "effects (log e s det st) = effects st"
  by (simp add: log_def)

lemma loadDynamicContent_browser [simp]: "browser (loadDynamicContent e st) = browser st"
  by (simp add: loadDynamicContent_def tabs_def split: outcome.splits)

lemma loadDynamicContent_effects [simp]: "effects (loadDynamicContent e st) = effects st"
  by (simp add: loadDynamicContent_def tabs_def split: outcome.splits)

lemma extract_phase_state:
  "browser (snd (extract_phase e st)) = browser st \<and>
   effects (snd (extract_phase e st)) = effects st"
  by (simp add: extract_phase_def Let_def split: outcome.splits prod.splits)

lemma soft_block_phase_state:
  "browser (snd (soft_block_phase e url st)) = browser st \<and>
   effects (snd (soft_block_phase e url st)) = effects st"
  by (simp add: soft_block_phase_def Let_def extract_phase_state split: outcome.splits)

lemma navigate_phase_state:
  "browser (snd (navigate_phase e url st)) = browser st \<and>
   effects (snd (navigate_phase e url st)) = effects st @ [Goto_called url]"
  by (simp add: navigate_phase_def Let_def soft_block_phase_state
           split: outcome.splits option.splits)

lemma try_block_state:
  "browser (snd (try_block e url st)) = (browser st \<or> launch e = Returns ()) \<and>
   effects (snd (try_block e url st)) =
     effects st @
     (case launch e of
        Throws err \<Rightarrow> []
      | Returns u \<Rightarrow>
          Browser_launched #
          (if newPage e = Returns () \<and> configure e = Returns () then [Goto_called url] else []))"
  by (simp add: try_block_def Let_def navigate_phase_state split: outcome.splits)

lemma catch_block_state:
  "browser (snd (catch_block e r)) = browser (snd r) \<and>
   effects (snd (catch_block e r)) = effects (snd r)"
  by (simp add: catch_block_def split: prod.splits outcome.splits)

lemma finally_block_state:
  "effects (snd (finally_block e r)) =
     effects (snd r) @ (if browser (snd r) then [Close_called] else [])"
  by (simp add: finally_block_def Let_def split: prod.splits outcome.splits)

lemma scrapeHotelData_effects:
  "effects (snd (scrapeHotelData e url)) =
     (case launch e of
        Throws err \<Rightarrow> []
      | Returns u \<Rightarrow>
          Browser_launched #
          (if newPage e = Returns () \<and> configure e = Returns () then [Goto_called url] else []) @
          [Close_called])"
  by (simp add: scrapeHotelData_def finally_block_state catch_block_state try_block_state
           split: outcome.splits)

lemma fst_extractHotelData:
  "fst (extractHotelData lower pg lg d) =
     (case parallel_rejection pg of
        Some err \<Rightarrow> Throws err
      | None \<Rightarrow>
         (case rooms_rejection pg of
            Some err \<Rightarrow> Throws err
          | None \<Rightarrow>
              Returns
                \<lparr>hotelName = hotelName_result pg,
                 address = address_result pg,
                 description = description_result pg,
                 rating = rating_callback (scoreContainer pg),
                 galleryImages = [],
                 features = extractFeatures (feature_spans pg),
                 rooms = fst (extractRooms (roomstable pg)),
                 reviews = extractReviews (featuredreviews pg),
                 checkin = fst (checkTimes_result pg),
                 checkout = snd (checkTimes_result pg),
                 nearbyPlaces = extractNearbyPlaces lower (poi_blocks pg)\<rparr>))"
  by (simp add: extractHotelData_def extraction_failed_def Let_def split: option.splits)

lemma fst_case_outcome_pair:
  "fst (case p of (Throws err, d) \<Rightarrow> (Throws err, f d) | (Returns h, d) \<Rightarrow> (Returns (g h), k h d))
     = (case fst p of Throws err \<Rightarrow> Throws err | Returns h \<Rightarrow> Returns (g h))"
  by (cases p) (simp split: outcome.splits)

lemma fst_extract_phase:
  "fst (extract_phase e st) =
     (case body_wait e of
        Throws err \<Rightarrow> Throws err
      | Returns u \<Rightarrow>
         (case autoScroll e of
            Throws err \<Rightarrow> Throws err
          | Returns u \<Rightarrow>
             (case fst (extractHotelData (toLowerCase e) (loaded_page e) (log_step e) (diag st)) of
                Throws err \<Rightarrow> Throws err
              | Returns hdata \<Rightarrow>
                  Returns (hdata\<lparr>galleryImages := new_Set (collected_images (requests e))\<rparr>))))"
  unfolding extract_phase_def Let_def
  by (simp add: fst_case_outcome_pair fst_extractHotelData split: outcome.splits option.splits)

lemma fst_extract_phase_indep: "fst (extract_phase e st) = fst (extract_phase e st')"
  by (simp add: fst_extract_phase fst_extractHotelData split: outcome.splits)

lemma fst_soft_block_phase:
  "fst (soft_block_phase e url st) =
     (if \<not> js_includes (url_at_end e) hotel_marker then Throws (wrong_page (url_at_end e))
      else fst (extract_phase e st))"
  by (auto simp: soft_block_phase_def Let_def intro: fst_extract_phase_indep)

lemma fst_soft_block_phase_indep:
  "fst (soft_block_phase e url st) = fst (soft_block_phase e url st')"
  using fst_extract_phase_indep [of e st st'] by (simp add: fst_soft_block_phase)

lemma fst_navigate_phase:
  "fst (navigate_phase e url st) =
     (case goto e of
        Throws err \<Rightarrow> Throws err
      | Returns None \<Rightarrow> Throws no_response
      | Returns (Some s) \<Rightarrow>
          (case check_status s of
             Some err \<Rightarrow> Throws err
           | None \<Rightarrow> fst (soft_block_phase e url st)))"
  by (auto simp: navigate_phase_def Let_def split: outcome.splits option.splits
           intro: fst_soft_block_phase_indep)

lemma fst_navigate_phase_indep:
  "fst (navigate_phase e url st) = fst (navigate_phase e url st')"
  using fst_soft_block_phase_indep [of e url st st']
  by (simp add: fst_navigate_phase split: outcome.splits option.splits)

lemma fst_try_block:
  "fst (try_block e url st) =
     (case launch e of
        Throws err \<Rightarrow> Throws err
      | Returns u \<Rightarrow>
         (case newPage e of
            Throws err \<Rightarrow> Throws err
          | Returns u \<Rightarrow>
             (case configure e of
                Throws err \<Rightarrow> Throws err
              | Returns u \<Rightarrow> fst (navigate_phase e url st))))"
  by (auto simp: try_block_def Let_def split: outcome.splits intro: fst_navigate_phase_indep)

lemma fst_catch_block:
  "fst (catch_block e r) =
     (case fst r of Returns hdata \<Rightarrow> Success hdata | Throws err \<Rightarrow> Failure (message err))"
  by (simp add: catch_block_def split: prod.splits outcome.splits)

lemma fst_finally_block:
  "fst (finally_block e r) =
     (if browser (snd r) then
        (case close e of Returns u \<Rightarrow> Returns (fst r) | Throws err \<Rightarrow> Throws err)
      else Returns (fst r))"
  by (simp add: finally_block_def Let_def split: prod.splits outcome.splits)

lemma fst_scrapeHotelData:
  "launch e = Returns () \<Longrightarrow> close e = Returns () \<Longrightarrow>
   fst (scrapeHotelData e url) =
     Returns (case fst (try_block e url
                \<lparr>diag = createDiagnostics (session_start e), browser = False, effects = []\<rparr>) of
                Returns hdata \<Rightarrow> Success hdata
              | Throws err \<Rightarrow> Failure (message err))"
  by (simp add: scrapeHotelData_def fst_finally_block fst_catch_block catch_block_state
        try_block_state)

lemma goto_update_soft_block:
  "fst (soft_block_phase (e\<lparr>goto := g\<rparr>) url st) = fst (soft_block_phase e url st)"
  by (simp add: fst_soft_block_phase fst_extract_phase fst_extractHotelData
        split: outcome.splits)

lemma check_status_cases:
  "check_status s =
     (if s = 403 then Some access_denied else if s = 404 then Some not_found else None)"
  by (simp add: check_status_def)

lemma bot_detection_mentioned: "js_includes (message access_denied) (str ''Bot detection'')"
  by code_simp

lemma scrape_succeeds:
  assumes "launch e = Returns ()" "newPage e = Returns ()" "configure e = Returns ()"
    "close e = Returns ()" "goto e = Returns (Some s)" "s \<noteq> 403" "s \<noteq> 404"
    "js_includes (url_at_end e) hotel_marker" "body_wait e = Returns ()"
    "autoScroll e = Returns ()" "parallel_rejection (loaded_page e) = None"
    "rooms_rejection (loaded_page e) = None"
  shows "resolves_with_success (fst (scrapeHotelData e url))"
  using assms
  by (simp add: fst_scrapeHotelData fst_try_block fst_navigate_phase check_status_cases
        fst_soft_block_phase fst_extract_phase fst_extractHotelData)

lemma hotel_url_valid: "js_includes hotel_url hotel_marker"
  by code_simp

text \<open>
  Claim C3, as the code has it. When the browser is launched and the page is set up,
  the scrape fails with \<open>No response from server\<close> when \<open>goto\<close> returns no response,
  with the access-denied message, which mentions bot detection, on status 403, and with
  \<open>Page not found (404)\<close> on status 404. Every other status passes the status check:
  the scrape goes on and ends as it does for status 200.
\<close>

theorem status_check_aborts_on_403_and_404:
  assumes "launch e = Returns ()" and "newPage e = Returns ()" and "configure e = Returns ()"
    and "close e = Returns ()"
  shows "(goto e = Returns None \<longrightarrow>
            fst (scrapeHotelData e url) = Returns (Failure (str ''No response from server'')))
       \<and> (goto e = Returns (Some 403) \<longrightarrow>
            fst (scrapeHotelData e url) = Returns (Failure (message access_denied)) \<and>
            js_includes (message access_denied) (str ''Bot detection''))
       \<and> (goto e = Returns (Some 404) \<longrightarrow>
            fst (scrapeHotelData e url) = Returns (Failure (str ''Page not found (404)'')))
       \<and> (s \<noteq> 403 \<and> s \<noteq> 404 \<longrightarrow>
            fst (scrapeHotelData (e\<lparr>goto := Returns (Some s)\<rparr>) url) =
            fst (scrapeHotelData (e\<lparr>goto := Returns (Some 200)\<rparr>) url))"
  using assms bot_detection_mentioned
  by (simp add: fst_scrapeHotelData fst_try_block fst_navigate_phase check_status_cases
        goto_update_soft_block no_response_def not_found_def)

theorem status_check_aborts_on_403_and_404_witness:
  "fst (scrapeHotelData (sample_env\<lparr>goto := Returns None\<rparr>) (JStr hotel_url))
     = Returns (Failure (str ''No response from server''))
   \<and> fst (scrapeHotelData (sample_env\<lparr>goto := Returns (Some 403)\<rparr>) (JStr hotel_url))
     = Returns (Failure (message access_denied))
   \<and> fst (scrapeHotelData (sample_env\<lparr>goto := Returns (Some 404)\<rparr>) (JStr hotel_url))
     = Returns (Failure (str ''Page not found (404)''))
   \<and> fst (scrapeHotelData (sample_env\<lparr>goto := Returns (Some 500)\<rparr>) (JStr hotel_url))
     = fst (scrapeHotelData (sample_env\<lparr>goto := Returns (Some 200)\<rparr>) (JStr hotel_url))"
  using status_check_aborts_on_403_and_404 [of "sample_env\<lparr>goto := Returns None\<rparr>" "JStr hotel_url" 500]
        status_check_aborts_on_403_and_404 [of "sample_env\<lparr>goto := Returns (Some 403)\<rparr>" "JStr hotel_url" 500]
        status_check_aborts_on_403_and_404 [of "sample_env\<lparr>goto := Returns (Some 404)\<rparr>" "JStr hotel_url" 500]
        status_check_aborts_on_403_and_404 [of "sample_env" "JStr hotel_url" 500]
  by (simp add: sample_env_def)

text \<open>
  The claim as stated, that every status other than 200 aborts the scrape, fails for
  status 500: on a page that is otherwise in order the scrape succeeds.
\<close>

theorem status_500_does_not_abort:
  "resolves_with_success
     (fst (scrapeHotelData (sample_env\<lparr>goto := Returns (Some 500)\<rparr>) (JStr hotel_url)))"
  by (rule scrape_succeeds [where s = 500])
     (simp_all add: sample_env_def sample_page_def hotel_url_valid)

section \<open>Properties of server.js\<close>

lemma isValidBookingUrl_falsy: "\<not> truthy url \<Longrightarrow> isValidBookingUrl url = Returns url"
  by (simp add: isValidBookingUrl_def)

lemma isValidBookingUrl_string:
  "s \<noteq> [] \<Longrightarrow> isValidBookingUrl (JStr s) = Returns (JBool (sublist hotel_marker s))"
  by (simp add: isValidBookingUrl_def js_includes_def)

lemma isValidBookingUrl_array:
  "isValidBookingUrl (JArr xs) = Returns (JBool (JStr hotel_marker \<in> set xs))"
  by (simp add: isValidBookingUrl_def)

lemma isValidBookingUrl_throws:
  "truthy url \<Longrightarrow> \<forall>s. url \<noteq> JStr s \<Longrightarrow> \<forall>xs. url \<noteq> JArr xs \<Longrightarrow>
   isValidBookingUrl url = Throws not_a_function"
  by (cases url) (simp_all add: isValidBookingUrl_def)

lemma hotel_marker_nonempty: "hotel_marker \<noteq> []"
  by (simp add: hotel_marker_def str_def)

lemma no_marker: "\<not> sublist hotel_marker (str ''https://example.com'')"
  by code_simp

lemma hotel_url_marker: "sublist hotel_marker hotel_url"
  using hotel_url_valid by (simp add: js_includes_def)

lemma post_scrape_string_url:
  "(\<not> sublist hotel_marker s \<longrightarrow>
      post_scrape scrape (body_with_url (JStr s)) = (invalid_url_response, []))
   \<and> (sublist hotel_marker s \<longrightarrow>
        snd (post_scrape scrape (body_with_url (JStr s))) = [JStr s])"
proof (intro conjI impI)
  assume "\<not> sublist hotel_marker s"
  then show "post_scrape scrape (body_with_url (JStr s)) = (invalid_url_response, [])"
    by (cases "s = []")
       (simp_all add: post_scrape_def destructure_body_with_url isValidBookingUrl_falsy
          isValidBookingUrl_string)
next
  assume "sublist hotel_marker s"
  then have "isValidBookingUrl (JStr s) = Returns (JBool True)"
    using hotel_marker_nonempty by (auto simp: isValidBookingUrl_def js_includes_def)
  then show "snd (post_scrape scrape (body_with_url (JStr s))) = [JStr s]"
    by (rule post_scrape_valid)
qed

text \<open>
  Claim C1. On a string \<open>url\<close> the handler does what the claim says: status 400
  and no scrape without the marker, a call of the scraper with it (lemma
  \<open>post_scrape_string_url\<close>). A body without \<open>url\<close>, or with a falsy one
  (\<open>null\<close>, \<open>0\<close>, \<open>false\<close>, the empty string) or an empty array, is answered with
  status 400, the error message and the example URL. For the body \<open>{"url": 123}\<close> it
  is not: \<open>url.includes\<close> is not a function, the TypeError of the validation reaches
  the \<open>catch\<close> of the handler, and the answer has status 500. The scraper is not
  called in any of these cases. A request whose body the middleware left unset fails
  in the same way, at the destructuring.
\<close>

theorem post_scrape_number_url_gives_500:
  "post_scrape (scrapeHotelData sample_env) (body_with_url (JNum 123)) =
     (handler_error_response not_a_function, [])
   \<and> status (handler_error_response not_a_function) = 500
   \<and> status (fst (post_scrape (scrapeHotelData sample_env) (body_with_url (JNum 123)))) \<noteq> 400
   \<and> status invalid_url_response = 400
   \<and> post_scrape (scrapeHotelData sample_env) (JObj []) = (invalid_url_response, [])
   \<and> post_scrape (scrapeHotelData sample_env) (body_with_url JNull) = (invalid_url_response, [])
   \<and> post_scrape (scrapeHotelData sample_env) (body_with_url (JNum 0)) = (invalid_url_response, [])
   \<and> post_scrape (scrapeHotelData sample_env) (body_with_url (JBool False))
       = (invalid_url_response, [])
   \<and> post_scrape (scrapeHotelData sample_env) (body_with_url (JStr [])) = (invalid_url_response, [])
   \<and> post_scrape (scrapeHotelData sample_env) (body_with_url (JArr [])) = (invalid_url_response, [])
   \<and> post_scrape (scrapeHotelData sample_env) (body_with_url (JStr (str ''https://example.com'')))
       = (invalid_url_response, [])
   \<and> snd (post_scrape (scrapeHotelData sample_env) (body_with_url (JStr hotel_url)))
       = [JStr hotel_url]
   \<and> post_scrape (scrapeHotelData sample_env) JUndefined
       = (handler_error_response cannot_destructure, [])"
proof -
  have invalid: "post_scrape (scrapeHotelData sample_env) (body_with_url (JStr (str ''https://example.com'')))
       = (invalid_url_response, [])"
    using no_marker post_scrape_string_url [of "str ''https://example.com''"] by blast
  have valid: "snd (post_scrape (scrapeHotelData sample_env) (body_with_url (JStr hotel_url)))
       = [JStr hotel_url]"
    using hotel_url_marker post_scrape_string_url [of hotel_url] by blast
  show ?thesis
    using invalid valid
    by (simp add: post_scrape_def destructure_body_with_url isValidBookingUrl_def
          handler_error_response_def invalid_url_response_def)
qed

text \<open>
  Claim C9. \<open>isValidBookingUrl(url)\<close> returns \<open>true\<close> exactly when \<open>url\<close> is truthy and
  contains \<open>booking.com/hotel\<close>: anywhere in it for a string, as an element for an array
  (the two kinds of value that have an \<open>includes\<close> method). A URL on a foreign host
  that carries the marker in its query string passes, the handler of \<open>POST /scrape\<close>
  calls the scraper with it, and the scraper, once its browser is launched, calls
  \<open>page.goto\<close> with it.
\<close>

theorem isValidBookingUrl_true_iff_includes:
  "(isValidBookingUrl url = Returns (JBool True) \<longleftrightarrow>
     truthy url \<and>
     ((\<exists>s. url = JStr s \<and> sublist hotel_marker s) \<or>
      (\<exists>xs. url = JArr xs \<and> JStr hotel_marker \<in> set xs)))
   \<and> isValidBookingUrl (JStr foreign_url) = Returns (JBool True)
   \<and> snd (post_scrape scrape (body_with_url (JStr foreign_url))) = [JStr foreign_url]
   \<and> effects (snd (scrapeHotelData sample_env (JStr foreign_url))) =
       [Browser_launched, Goto_called (JStr foreign_url), Close_called]"
proof -
  have "effects (snd (scrapeHotelData sample_env (JStr foreign_url))) =
       [Browser_launched, Goto_called (JStr foreign_url), Close_called]"
    by (simp add: scrapeHotelData_effects sample_env_def)
  with isValidBookingUrl_true_iff_lemma [of url] foreign_valid post_scrape_valid [OF foreign_valid]
  show ?thesis by blast
qed

section \<open>Properties of the de-duplicated collections\<close>

lemma filter_seen_keys:
  "key ` set (filter_seen key seen xs) = key ` set xs - seen"
  by (induction xs arbitrary: seen) auto

lemma filter_seen_distinct: "distinct (map key (filter_seen key seen xs))"
proof (induction xs arbitrary: seen)
  case Nil
  then show ?case by simp
next
  case (Cons x xs)
  have "key x \<notin> key ` set (filter_seen key (insert (key x) seen) xs)"
    by (simp add: filter_seen_keys)
  with Cons show ?case by simp
qed

lemma filter_seen_subseq: "subseq (filter_seen key seen xs) xs"
  by (induction xs arbitrary: seen) auto

lemma filter_seen_append:
  "filter_seen key seen (xs @ ys) =
     filter_seen key seen xs @ filter_seen key (seen \<union> key ` set xs) ys"
  by (induction xs arbitrary: seen) (auto simp: insert_absorb)

lemma filter_seen_snoc:
  "filter_seen key {} (xs @ [x]) =
     filter_seen key {} xs @ (if key x \<in> key ` set xs then [] else [x])"
  by (simp add: filter_seen_append)

lemma foldl_Set_add:
  "foldl Set_add acc xs = acc @ filter_seen (\<lambda>x. x) (set acc) xs"
  by (induction xs arbitrary: acc) (auto simp: Set_add_def)

lemma new_Set_filter_seen: "new_Set xs = filter_seen (\<lambda>x. x) {} xs"
  by (simp add: new_Set_def foldl_Set_add)

lemma new_Set_distinct: "distinct (new_Set xs)"
  using filter_seen_distinct [of "\<lambda>x. x" "{}" xs] by (simp add: new_Set_filter_seen)


lemma new_Set_subseq: "subseq (new_Set xs) xs"
  by (simp add: new_Set_filter_seen filter_seen_subseq)

lemma new_Set_snoc: "new_Set (xs @ [x]) = new_Set xs @ (if x \<in> set xs then [] else [x])"
  using filter_seen_snoc [of "\<lambda>x. x" xs x] by (simp add: new_Set_filter_seen)

lemma distinct_map_filter_once:
  "distinct (map key ys) \<Longrightarrow> t \<in> key ` set ys \<Longrightarrow> length (filter (\<lambda>y. key y = t) ys) = 1"
proof (induction ys)
  case Nil
  then show ?case by simp
next
  case (Cons y ys)
  show ?case
  proof (cases "key y = t")
    case True
    with Cons.prems have "t \<notin> key ` set ys" by simp
    then have "\<forall>z \<in> set ys. key z \<noteq> t" by blast
    then have "filter (\<lambda>y. key y = t) ys = []" by (simp add: filter_empty_conv)
    with True show ?thesis by simp
  next
    case False
    with Cons show ?thesis by auto
  qed
qed

lemma scrape_success_data:
  assumes "fst (scrapeHotelData e url) = Returns (Success hdata)"
  shows "galleryImages hdata = new_Set (collected_images (requests e)) \<and>
         features hdata = extractFeatures (feature_spans (loaded_page e)) \<and>
         reviews hdata = extractReviews (featuredreviews (loaded_page e)) \<and>
         nearbyPlaces hdata = extractNearbyPlaces (toLowerCase e) (poi_blocks (loaded_page e)) \<and>
         rooms hdata = fst (extractRooms (roomstable (loaded_page e))) \<and>
         rating hdata = rating_callback (scoreContainer (loaded_page e))"
proof -
  let ?st = "\<lparr>diag = createDiagnostics (session_start e), browser = False, effects = []\<rparr>"
  from assms have "fst (catch_block e (try_block e url ?st)) = Success hdata"
    by (simp add: scrapeHotelData_def fst_finally_block split: if_splits outcome.splits)
  then have "fst (try_block e url ?st) = Returns hdata"
    by (simp add: fst_catch_block split: outcome.splits)
  then have "fst (extract_phase e ?st) = Returns hdata"
    by (simp add: fst_try_block fst_navigate_phase fst_soft_block_phase
             split: outcome.splits option.splits if_splits)
  then show ?thesis
    by (auto simp: fst_extract_phase fst_extractHotelData split: outcome.splits option.splits)
qed

lemma success_result_data:
  "resolves_with_success r \<Longrightarrow> r = Returns (Success (the (result_data r)))"
  by (cases r rule: resolves_with_success.cases) simp_all

lemma sample_scrape_succeeds:
  "resolves_with_success (fst (scrapeHotelData sample_env (JStr hotel_url)))"
  by (rule scrape_succeeds [where s = 200])
     (simp_all add: sample_env_def sample_page_def hotel_url_valid)

lemma great_stay: "review_text (review_of sample_review) = str ''Great stay''"
  by (simp add: review_of_def sample_review_def strip_quotes_def trim_def is_space_def
        opening_mark_def closing_mark_def str_def)

text \<open>
  Claim C4. The features, the gallery images of a successful scrape, the reviews (by
  text) and the nearby places (by the key made of place name and distance) hold no two
  equal elements and no two equal keys. Each collection grows in the order of the source:
  one more source element at the end adds its value at the end of the collection when
  its key has not appeared before, and changes nothing otherwise. In particular a text
  carried by several review blocks is the text of exactly one review.
\<close>

theorem deduplicated_collections_keep_first_appearances:
  "distinct (extractFeatures spans)
   \<and> extractFeatures (spans @ [s]) =
       extractFeatures spans @ (if trim s \<in> set (map trim spans) then [] else [trim s])
   \<and> (fst (scrapeHotelData e url) = Returns (Success hdata) \<longrightarrow>
        galleryImages hdata = new_Set (collected_images (requests e)) \<and>
        distinct (galleryImages hdata))
   \<and> new_Set (imgs @ [img]) = new_Set imgs @ (if img \<in> set imgs then [] else [img])
   \<and> distinct (map review_text (extractReviews blocks))
   \<and> distinct (extractReviews blocks)
   \<and> extractReviews (blocks @ [b]) =
       extractReviews blocks @
       (if review_text (review_of b) \<in> review_text ` set (map review_of blocks) then []
        else [review_of b])
   \<and> (t \<in> review_text ` set (map review_of blocks) \<longrightarrow>
        length (filter (\<lambda>r. review_text r = t) (extractReviews blocks)) = 1)
   \<and> distinct (map place_key (extractNearbyPlaces lower bs))
   \<and> distinct (extractNearbyPlaces lower bs)
   \<and> extractNearbyPlaces lower (bs @ [\<lparr>heading = h, items = its @ [it]\<rparr>]) =
       extractNearbyPlaces lower (bs @ [\<lparr>heading = h, items = its\<rparr>]) @
       (if place_key (place_of (case h of None \<Rightarrow> [] | Some x \<Rightarrow> lower (trim x)) it)
             \<in> place_key ` set (concat (map (places_of_block lower)
                                               (bs @ [\<lparr>heading = h, items = its\<rparr>])))
        then []
        else [place_of (case h of None \<Rightarrow> [] | Some x \<Rightarrow> lower (trim x)) it])"
proof -
  have features: "distinct (extractFeatures spans)"
    by (simp add: extractFeatures_def new_Set_distinct)
  have features_order: "extractFeatures (spans @ [s]) =
       extractFeatures spans @ (if trim s \<in> set (map trim spans) then [] else [trim s])"
    by (simp add: extractFeatures_def new_Set_snoc)
  have gallery: "fst (scrapeHotelData e url) = Returns (Success hdata) \<longrightarrow>
        galleryImages hdata = new_Set (collected_images (requests e)) \<and>
        distinct (galleryImages hdata)"
    using scrape_success_data [of e url hdata] by (simp add: new_Set_distinct)
  have gallery_order:
    "new_Set (imgs @ [img]) = new_Set imgs @ (if img \<in> set imgs then [] else [img])"
    by (rule new_Set_snoc)
  have review_keys: "distinct (map review_text (extractReviews blocks))"
    by (simp add: extractReviews_def filter_seen_distinct)
  then have reviews: "distinct (extractReviews blocks)"
    by (simp add: distinct_map)
  have reviews_order: "extractReviews (blocks @ [b]) =
       extractReviews blocks @
       (if review_text (review_of b) \<in> review_text ` set (map review_of blocks) then []
        else [review_of b])"
    by (simp add: extractReviews_def filter_seen_snoc)
  have once: "t \<in> review_text ` set (map review_of blocks) \<longrightarrow>
        length (filter (\<lambda>r. review_text r = t) (extractReviews blocks)) = 1"
  proof
    assume "t \<in> review_text ` set (map review_of blocks)"
    then have "t \<in> review_text ` set (extractReviews blocks)"
      by (simp add: extractReviews_def filter_seen_keys)
    with review_keys show "length (filter (\<lambda>r. review_text r = t) (extractReviews blocks)) = 1"
      by (rule distinct_map_filter_once)
  qed
  have place_keys: "distinct (map place_key (extractNearbyPlaces lower bs))"
    by (simp add: extractNearbyPlaces_def filter_seen_distinct)
  then have places: "distinct (extractNearbyPlaces lower bs)"
    by (simp add: distinct_map)
  have places_order:
    "extractNearbyPlaces lower (bs @ [\<lparr>heading = h, items = its @ [it]\<rparr>]) =
       extractNearbyPlaces lower (bs @ [\<lparr>heading = h, items = its\<rparr>]) @
       (if place_key (place_of (case h of None \<Rightarrow> [] | Some x \<Rightarrow> lower (trim x)) it)
             \<in> place_key ` set (concat (map (places_of_block lower)
                                               (bs @ [\<lparr>heading = h, items = its\<rparr>])))
        then []
        else [place_of (case h of None \<Rightarrow> [] | Some x \<Rightarrow> lower (trim x)) it])"
  proof -
    let ?ty = "case h of None \<Rightarrow> [] | Some x \<Rightarrow> lower (trim x)"
    have "concat (map (places_of_block lower) (bs @ [\<lparr>heading = h, items = its @ [it]\<rparr>])) =
          concat (map (places_of_block lower) (bs @ [\<lparr>heading = h, items = its\<rparr>])) @
          [place_of ?ty it]"
      by (simp add: places_of_block_def Let_def)
    then show ?thesis
      unfolding extractNearbyPlaces_def by (simp only: filter_seen_snoc)
  qed
  from features features_order gallery gallery_order review_keys reviews reviews_order once
    place_keys places places_order
  show ?thesis by blast
qed

theorem deduplicated_collections_keep_first_appearances_witness:
  "distinct (galleryImages (the (result_data (fst (scrapeHotelData sample_env (JStr hotel_url))))))
   \<and> length (filter (\<lambda>r. review_text r = str ''Great stay'')
                (extractReviews [sample_review, sample_review\<lparr>avatar_name := Some (str ''Bo'')\<rparr>]))
       = 1"
proof -
  have success: "fst (scrapeHotelData sample_env (JStr hotel_url)) =
      Returns (Success (the (result_data (fst (scrapeHotelData sample_env (JStr hotel_url))))))"
    by (rule success_result_data [OF sample_scrape_succeeds])
  have twice: "str ''Great stay'' \<in> review_text `
      set (map review_of [sample_review, sample_review\<lparr>avatar_name := Some (str ''Bo'')\<rparr>])"
    by (simp add: great_stay)
  from success twice
    deduplicated_collections_keep_first_appearances [where e = sample_env and url = "JStr hotel_url"
          and hdata = "the (result_data (fst (scrapeHotelData sample_env (JStr hotel_url))))"
          and blocks = "[sample_review, sample_review\<lparr>avatar_name := Some (str ''Bo'')\<rparr>]"
          and t = "str ''Great stay''" and spans = "[]" and s = "[]" and imgs = "[]"
          and img = "[]" and b = sample_review and lower = ascii_lower and bs = "[]"
          and h = None and its = "[]" and it = "\<lparr>item_name = None, item_distance = None\<rparr>"]
  show ?thesis by blast
qed

section \<open>Properties of extractRooms\<close>

lemma rooms_loop_incomplete:
  "nameEl row = None \<or> occupancyEl row = None \<Longrightarrow>
   rooms_loop i (row # rows) = rooms_loop (Suc i) rows"
  by (auto split: prod.splits option.splits)

lemma rooms_loop_clicks:
  "Click_name j \<in> set (snd (rooms_loop i rows)) \<Longrightarrow>
   i \<le> j \<and> j < i + length rows \<and>
   nameEl (rows ! (j - i)) \<noteq> None \<and> occupancyEl (rows ! (j - i)) \<noteq> None"
proof (induction rows arbitrary: i)
  case Nil
  then show ?case by simp
next
  case (Cons row rows)
  show ?case
  proof (cases "j = i")
    case True
    with Cons.prems Cons.IH [of "Suc i"] show ?thesis
      by (cases "nameEl row"; cases "occupancyEl row")
         (auto simp: rooms_loop_incomplete)
  next
    case False
    with Cons.prems have "Click_name j \<in> set (snd (rooms_loop (Suc i) rows))"
      by (auto split: prod.splits option.splits if_splits)
    from Cons.IH [OF this] False show ?thesis
      by (auto simp: nth_Cons' Suc_diff_le)
  qed
qed

lemma rooms_loop_results:
  "fst (rooms_loop i rows) =
   fst (rooms_loop i' (filter (\<lambda>row. nameEl row \<noteq> None \<and> occupancyEl row \<noteq> None) rows))"
proof (induction rows arbitrary: i i')
  case Nil
  then show ?case by simp
next
  case (Cons row rows)
  from Cons [of "Suc i" "Suc i'"] Cons [of "Suc i" i'] show ?case
    by (auto split: prod.splits option.splits)
qed

lemma rooms_loop_all_incomplete:
  "\<forall>row \<in> set rows. nameEl row = None \<or> occupancyEl row = None \<Longrightarrow>
   rooms_loop i rows = ([], [])"
  by (induction rows arbitrary: i) (simp_all add: rooms_loop_incomplete del: rooms_loop.simps(2))

lemma sample_rows_second_click:
  "Click_name 1 \<in> set (snd (extractRooms sample_rows))"
  by (simp add: extractRooms_def sample_rows_def sample_popup_def One_nat_def [symmetric]
           del: One_nat_def)

text \<open>
  Claim C8. On a page without room rows \<open>extractRooms\<close> returns the empty list and
  performs no click and no delay. A row that lacks its name element or its occupancy
  element is never clicked, and the rooms returned are those of the table with such rows
  removed; a table made of such rows only gives the empty list and no interaction.
\<close>

theorem extractRooms_skips_incomplete_rows:
  "extractRooms [] = ([], [])
   \<and> (\<forall>i < length roomRows.
         nameEl (roomRows ! i) = None \<or> occupancyEl (roomRows ! i) = None \<longrightarrow>
         Click_name i \<notin> set (snd (extractRooms roomRows)))
   \<and> fst (extractRooms roomRows) =
       fst (extractRooms (filter (\<lambda>row. nameEl row \<noteq> None \<and> occupancyEl row \<noteq> None) roomRows))
   \<and> ((\<forall>row \<in> set roomRows. nameEl row = None \<or> occupancyEl row = None) \<longrightarrow>
        extractRooms roomRows = ([], []))"
proof (intro conjI allI impI)
  show "extractRooms [] = ([], [])"
    by (simp add: extractRooms_def)
next
  fix i
  assume incomplete: "nameEl (roomRows ! i) = None \<or> occupancyEl (roomRows ! i) = None"
  show "Click_name i \<notin> set (snd (extractRooms roomRows))"
  proof
    assume "Click_name i \<in> set (snd (extractRooms roomRows))"
    then have "nameEl (roomRows ! i) \<noteq> None \<and> occupancyEl (roomRows ! i) \<noteq> None"
      using rooms_loop_clicks [of i 0 roomRows] by (simp add: extractRooms_def)
    with incomplete show False by blast
  qed
next
  show "fst (extractRooms roomRows) =
       fst (extractRooms (filter (\<lambda>row. nameEl row \<noteq> None \<and> occupancyEl row \<noteq> None) roomRows))"
    unfolding extractRooms_def by (rule rooms_loop_results)
next
  assume "\<forall>row \<in> set roomRows. nameEl row = None \<or> occupancyEl row = None"
  then show "extractRooms roomRows = ([], [])"
    unfolding extractRooms_def by (rule rooms_loop_all_incomplete)
qed

theorem extractRooms_skips_incomplete_rows_witness:
  "Click_name 0 \<notin> set (snd (extractRooms sample_rows))
   \<and> Click_name 1 \<in> set (snd (extractRooms sample_rows))
   \<and> extractRooms [hd sample_rows] = ([], [])"
  using extractRooms_skips_incomplete_rows [of sample_rows] extractRooms_skips_incomplete_rows [of "[hd sample_rows]"] sample_rows_second_click
  by (simp add: sample_rows_def)

section \<open>Properties of the image URLs\<close>

























section \<open>Properties of extractNearbyPlaces\<close>

lemma prefix_ci_first:
  "prefix_ci (a # w) s \<Longrightarrow> s \<noteq> [] \<and> ascii_upper (hd s) = ascii_upper a"
  by (cases s) (simp_all add: prefix_ci_def)

lemma category_first_letters:
  "prefix_ci (str ''Restaurant'') s \<Longrightarrow> ascii_upper (hd s) = 82"
  "prefix_ci (str ''Train'') s \<Longrightarrow> ascii_upper (hd s) = 84"
  "prefix_ci (str ''Airport'') s \<Longrightarrow> ascii_upper (hd s) = 65"
  by (auto simp: str_def ascii_upper_def dest!: prefix_ci_first)

lemma strip_category_no_match:
  "\<not> starts_with_category s \<Longrightarrow> strip_category category_words s = s"
  by (simp add: starts_with_category_def category_words_def)

lemma strip_category_match:
  assumes "w \<in> set category_words" and "prefix_ci w s"
  shows "strip_category category_words s = dropWhile is_space (drop (length w) s)"
proof -
  from assms(1) consider "w = str ''Restaurant''" | "w = str ''Train''" | "w = str ''Airport''"
    by (auto simp: category_words_def)
  then show ?thesis
  proof cases
    case 1
    with assms(2) show ?thesis by (simp add: category_words_def)
  next
    case 2
    with assms(2) category_first_letters(1) [of s] category_first_letters(2) [of s]
    have "\<not> prefix_ci (str ''Restaurant'') s" by auto
    with 2 assms(2) show ?thesis by (simp add: category_words_def)
  next
    case 3
    with assms(2) category_first_letters [of s]
    have "\<not> prefix_ci (str ''Restaurant'') s" "\<not> prefix_ci (str ''Train'') s" by auto
    with 3 assms(2) show ?thesis by (simp add: category_words_def)
  qed
qed

lemma starts_with_category_iff:
  "starts_with_category s \<longleftrightarrow> (\<exists>w \<in> set category_words. prefix_ci w s)"
  by (simp add: starts_with_category_def list_ex_iff)

lemma filter_seen_subset: "set (filter_seen key seen xs) \<subseteq> set xs"
  by (induction xs arbitrary: seen) auto

lemma places_origin:
  "p \<in> set (extractNearbyPlaces lower bs) \<Longrightarrow>
   \<exists>b \<in> set bs. \<exists>item \<in> set (items b).
     p = place_of (case heading b of None \<Rightarrow> [] | Some h \<Rightarrow> lower (trim h)) item"
proof -
  assume "p \<in> set (extractNearbyPlaces lower bs)"
  then have "p \<in> set (concat (map (places_of_block lower) bs))"
    using filter_seen_subset [of place_key "{}" "concat (map (places_of_block lower) bs)"]
    by (auto simp: extractNearbyPlaces_def)
  then show ?thesis
    by (auto simp: places_of_block_def Let_def)
qed

lemma cafe_places:
  "extractNearbyPlaces ascii_lower [cafe_block] =
     [\<lparr>poi_place = str ''Train Station Cafe'', poi_distance = str ''200 m'',
       poi_type = str ''restaurants & cafes''\<rparr>]"
  by (simp add: extractNearbyPlaces_def places_of_block_def place_of_def cafe_block_def
        text_or_empty_def trim_def is_space_def str_def category_words_def prefix_ci_def
        ascii_upper_def ascii_lower_def place_key_def)

lemma train_station: "starts_with_category (str ''Train Station Cafe'')"
  by (simp add: starts_with_category_def category_words_def prefix_ci_def str_def ascii_upper_def)

lemma le_jardin: "\<not> starts_with_category (str ''Le Jardin'')"
  by (simp add: starts_with_category_def category_words_def prefix_ci_def str_def ascii_upper_def)

lemma restaurant_le_jardin:
  "str ''Restaurant'' \<in> set category_words"
  "prefix_ci (str ''Restaurant'') (str ''Restaurant Le Jardin'')"
  by (simp_all add: category_words_def prefix_ci_def str_def ascii_upper_def)

text \<open>
  Claim C6, as the code has it. The place name of an emitted record is the trimmed
  text of the name element after one \<open>replace\<close>: when that text begins with a category
  word (in either case), the word and the white space after it are removed, once;
  otherwise the text is kept. So the emitted name begins with a category word exactly
  when the text has a second category word right after the first. Every record
  returned by \<open>extractNearbyPlaces\<close> is built this way from an item of a block.
\<close>

theorem place_name_loses_one_category_word:
  "poi_place (place_of ty item) = strip_category category_words (text_or_empty (item_name item))
   \<and> (\<not> starts_with_category raw \<longrightarrow> strip_category category_words raw = raw)
   \<and> (w \<in> set category_words \<and> prefix_ci w raw \<longrightarrow>
        strip_category category_words raw = dropWhile is_space (drop (length w) raw))
   \<and> (starts_with_category (strip_category category_words raw) \<longleftrightarrow>
        (\<exists>w \<in> set category_words.
           prefix_ci w raw \<and> starts_with_category (dropWhile is_space (drop (length w) raw))))
   \<and> (p \<in> set (extractNearbyPlaces lower bs) \<longrightarrow>
        (\<exists>b \<in> set bs. \<exists>item \<in> set (items b).
           p = place_of (case heading b of None \<Rightarrow> [] | Some h \<Rightarrow> lower (trim h)) item))"
proof (intro conjI impI)
  show "poi_place (place_of ty item) =
      strip_category category_words (text_or_empty (item_name item))"
    by (simp add: place_of_def)
next
  assume "\<not> starts_with_category raw"
  then show "strip_category category_words raw = raw" by (rule strip_category_no_match)
next
  assume "w \<in> set category_words \<and> prefix_ci w raw"
  then show "strip_category category_words raw = dropWhile is_space (drop (length w) raw)"
    by (simp add: strip_category_match)
next
  show "starts_with_category (strip_category category_words raw) \<longleftrightarrow>
        (\<exists>w \<in> set category_words.
           prefix_ci w raw \<and> starts_with_category (dropWhile is_space (drop (length w) raw)))"
  proof (cases "starts_with_category raw")
    case True
    then obtain w where w: "w \<in> set category_words" "prefix_ci w raw"
      by (auto simp: starts_with_category_iff)
    then have "strip_category category_words raw = dropWhile is_space (drop (length w) raw)"
      by (rule strip_category_match)
    moreover have "strip_category category_words raw = dropWhile is_space (drop (length w') raw)"
      if "w' \<in> set category_words" "prefix_ci w' raw" for w'
      using that by (rule strip_category_match)
    ultimately show ?thesis using w by metis
  next
    case False
    then show ?thesis
      by (auto simp: strip_category_no_match starts_with_category_iff)
  qed
next
  assume "p \<in> set (extractNearbyPlaces lower bs)"
  then show "\<exists>b \<in> set bs. \<exists>item \<in> set (items b).
           p = place_of (case heading b of None \<Rightarrow> [] | Some h \<Rightarrow> lower (trim h)) item"
    by (rule places_origin)
qed

theorem place_name_loses_one_category_word_witness:
  "strip_category category_words (str ''Le Jardin'') = str ''Le Jardin''
   \<and> strip_category category_words (str ''Restaurant Le Jardin'') =
       dropWhile is_space (drop (length (str ''Restaurant'')) (str ''Restaurant Le Jardin''))
   \<and> (\<exists>b \<in> set [cafe_block]. \<exists>item \<in> set (items b).
         \<lparr>poi_place = str ''Train Station Cafe'', poi_distance = str ''200 m'',
          poi_type = str ''restaurants & cafes''\<rparr> =
         place_of (case heading b of None \<Rightarrow> [] | Some h \<Rightarrow> ascii_lower (trim h)) item)"
proof -
  let ?p = "\<lparr>poi_place = str ''Train Station Cafe'', poi_distance = str ''200 m'',
             poi_type = str ''restaurants & cafes''\<rparr>"
  have member: "?p \<in> set (extractNearbyPlaces ascii_lower [cafe_block])"
    by (simp add: cafe_places)
  from le_jardin
    place_name_loses_one_category_word [where raw = "str ''Le Jardin''" and w = "str ''Restaurant''" and p = ?p
          and lower = ascii_lower and bs = "[cafe_block]"]
  have 1: "strip_category category_words (str ''Le Jardin'') = str ''Le Jardin''"
    by blast
  from restaurant_le_jardin member
    place_name_loses_one_category_word [where raw = "str ''Restaurant Le Jardin''" and w = "str ''Restaurant''" and p = ?p
          and lower = ascii_lower and bs = "[cafe_block]"]
  have 2: "strip_category category_words (str ''Restaurant Le Jardin'') =
       dropWhile is_space (drop (length (str ''Restaurant'')) (str ''Restaurant Le Jardin''))"
    and 3: "\<exists>b \<in> set [cafe_block]. \<exists>item \<in> set (items b).
         ?p = place_of (case heading b of None \<Rightarrow> [] | Some h \<Rightarrow> ascii_lower (trim h)) item"
    by blast+
  from 1 2 3 show ?thesis by blast
qed

text \<open>
  The claim as stated, that no emitted name begins with a category word, fails for an
  item named \<open>Restaurant Train Station Cafe\<close>: the emitted name is
  \<open>Train Station Cafe\<close>.
\<close>

theorem place_name_can_begin_with_category_word:
  "extractNearbyPlaces ascii_lower [cafe_block] =
     [\<lparr>poi_place = str ''Train Station Cafe'', poi_distance = str ''200 m'',
       poi_type = str ''restaurants & cafes''\<rparr>]
   \<and> prefix_ci (str ''Train'') (str ''Train Station Cafe'')"
  using cafe_places by (simp add: prefix_ci_def str_def ascii_upper_def)

section \<open>Properties of extractRating\<close>

lemma comma_period: "comma = [44]" "period = [46]"
  by (simp_all add: comma_def period_def str_def)

lemma count_after_replace:
  "count_list (replace_first s comma period) 44 = count_list s 44 - 1"
  by (induction s) (auto simp: comma_period)

lemma no_comma_left:
  "count_list s 44 \<le> 1 \<Longrightarrow> 44 \<notin> set (replace_first s comma period)"
proof -
  assume "count_list s 44 \<le> 1"
  then have "count_list (replace_first s comma period) 44 = 0"
    by (simp add: count_after_replace)
  then show ?thesis
    by (simp add: count_list_0_iff)
qed

lemma map_elements_throws:
  "(\<exists>err. map_elements divs = Throws err) \<longleftrightarrow> (\<exists>r \<in> set divs. \<exists>err. r = Throws err)"
  by (induction divs) (auto split: outcome.splits)

lemma map_elements_first:
  "map_elements divs = Returns (e # es) \<Longrightarrow>
   \<exists>t rest. divs = Returns t # rest \<and> e = replace_first (trim t) comma period"
  by (cases divs) (auto split: outcome.splits)

lemma rating_callback_absent: "rating_callback None = null_rating"
  by (simp add: rating_callback_def rating_try_def)

lemma rating_callback_caught:
  "rating_try c = Throws err \<Longrightarrow> rating_callback c = null_rating"
  by (simp add: rating_callback_def)

lemma rating_callback_read_throws:
  assumes "\<exists>r \<in> set divs. \<exists>err. r = Throws err"
  shows "rating_callback (Some divs) = null_rating"
proof -
  from assms obtain err where "map_elements divs = Throws err"
    using map_elements_throws [of divs] by blast
  then show ?thesis
    by (simp add: rating_callback_def rating_try_def)
qed

lemma score_origin:
  assumes "score (rating_callback c) = Some s"
  shows "s \<noteq> [] \<and> (\<exists>t divs. c = Some (Returns t # divs) \<and>
                          s = replace_first (trim t) comma period)"
proof (cases c)
  case None
  with assms show ?thesis
    by (simp add: rating_callback_def rating_try_def null_rating_def)
next
  case (Some divs)
  show ?thesis
  proof (cases "map_elements divs")
    case (Throws err)
    with assms Some show ?thesis
      by (simp add: rating_callback_def rating_try_def null_rating_def)
  next
    case (Returns elements)
    with assms Some have "elements \<noteq> []" and s: "s = elements ! 0" and "s \<noteq> []"
      by (auto simp: rating_callback_def rating_try_def Let_def split: if_splits)
    then obtain es where "elements = s # es"
      by (cases elements) auto
    with Returns map_elements_first [of divs s es] Some \<open>s \<noteq> []\<close> show ?thesis
      by auto
  qed
qed

lemma two_commas:
  "rating_callback (Some [Returns (str ''8,5,1'')]) =
     \<lparr>score = Some (str ''8.5,1''), totalReviews = None\<rparr>"
  by (simp add: rating_callback_def rating_try_def Let_def trim_def is_space_def str_def
        comma_period match_digits_spaces_def)

lemma one_comma:
  "rating_callback (Some [Returns (str '' 9,2 ''), Returns (str ''1 234 reviews'')]) =
     \<lparr>score = Some (str ''9.2''), totalReviews = Some (Num 1234)\<rparr>"
  by (auto simp: rating_callback_def rating_try_def Let_def trim_def is_space_def str_def
        comma_period match_digits_spaces_def digit_or_space_def is_digit_def parseInt_def
        digits_value_def)

text \<open>
  Claim C7, as the code has it. The callback of \<open>extractRating\<close> never throws: it
  returns \<open>{null, null}\<close> when the score container is absent, and whenever its \<open>try\<close>
  block throws, as it does when the read of a sub-element throws. \<open>extractRating\<close>
  itself resolves with what the callback returns, and rejects when, and only when,
  \<open>page.evaluate\<close> rejects. A score that is returned is not empty and is the trimmed
  text of the first sub-element after \<open>replace(",", ".")\<close>, which turns the first comma
  into a period: the text loses exactly one comma, and the score has no comma when the
  text has at most one.
\<close>

theorem extractRating_score_first_comma:
  "rating_callback None = \<lparr>score = None, totalReviews = None\<rparr>
   \<and> (rating_try c = Throws err \<longrightarrow>
        rating_callback c = \<lparr>score = None, totalReviews = None\<rparr>)
   \<and> ((\<exists>r \<in> set divs. \<exists>err'. r = Throws err') \<longrightarrow>
        rating_callback (Some divs) = \<lparr>score = None, totalReviews = None\<rparr>)
   \<and> extractRating None c = Returns (rating_callback c)
   \<and> extractRating (Some err) c = Throws err
   \<and> ((\<exists>err'. extractRating rejection c = Throws err') \<longleftrightarrow> rejection \<noteq> None)
   \<and> (score (rating_callback c) = Some s \<longrightarrow>
        s \<noteq> [] \<and> (\<exists>t rest. c = Some (Returns t # rest) \<and>
                           s = replace_first (trim t) comma period))
   \<and> count_list (replace_first x comma period) 44 = count_list x 44 - 1
   \<and> (count_list x 44 \<le> 1 \<longrightarrow> 44 \<notin> set (replace_first x comma period))"
proof (intro conjI impI)
  show "rating_callback None = \<lparr>score = None, totalReviews = None\<rparr>"
    using rating_callback_absent by (simp add: null_rating_def)
next
  assume "rating_try c = Throws err"
  then show "rating_callback c = \<lparr>score = None, totalReviews = None\<rparr>"
    using rating_callback_caught [of c err] by (simp add: null_rating_def)
next
  assume "\<exists>r \<in> set divs. \<exists>err'. r = Throws err'"
  then show "rating_callback (Some divs) = \<lparr>score = None, totalReviews = None\<rparr>"
    using rating_callback_read_throws [of divs] by (simp add: null_rating_def)
next
  show "extractRating None c = Returns (rating_callback c)"
    by (simp add: extractRating_def page_evaluate_def)
next
  show "extractRating (Some err) c = Throws err"
    by (simp add: extractRating_def page_evaluate_def)
next
  show "(\<exists>err'. extractRating rejection c = Throws err') \<longleftrightarrow> rejection \<noteq> None"
    by (cases rejection) (simp_all add: extractRating_def page_evaluate_def)
next
  assume "score (rating_callback c) = Some s"
  from score_origin [OF this] show "s \<noteq> []"
    and "\<exists>t rest. c = Some (Returns t # rest) \<and> s = replace_first (trim t) comma period"
    by blast+
next
  show "count_list (replace_first x comma period) 44 = count_list x 44 - 1"
    by (rule count_after_replace)
next
  assume "count_list x 44 \<le> 1"
  then show "44 \<notin> set (replace_first x comma period)"
    by (rule no_comma_left)
qed

theorem extractRating_score_first_comma_witness:
  "rating_callback (Some [Returns (str '' 9,2 ''), Throws context_destroyed]) =
     \<lparr>score = None, totalReviews = None\<rparr>
   \<and> str ''9.2'' \<noteq> []
   \<and> (\<exists>t rest. Some [Returns (str '' 9,2 ''), Returns (str ''1 234 reviews'')] =
                 Some (Returns t # rest) \<and>
         str ''9.2'' = replace_first (trim t) comma period)
   \<and> 44 \<notin> set (replace_first (str ''9,2'') comma period)"
proof -
  let ?good = "Some [Returns (str '' 9,2 ''), Returns (str ''1 234 reviews'')]"
  let ?bad = "[Returns (str '' 9,2 ''), Throws context_destroyed]"
  have thrown: "rating_try (Some ?bad) = Throws context_destroyed"
    by (simp add: rating_try_def)
  have read: "\<exists>r \<in> set ?bad. \<exists>err'. r = Throws err'"
    by simp
  have score: "score (rating_callback ?good) = Some (str ''9.2'')"
    by (simp add: one_comma)
  have commas: "count_list (str ''9,2'') 44 \<le> 1"
    by (simp add: str_def)
  from thrown read
    extractRating_score_first_comma [where c = "Some ?bad" and err = context_destroyed
      and divs = ?bad and rejection = None and s = "str ''9.2''" and x = "str ''9,2''"]
  have 1: "rating_callback (Some ?bad) = \<lparr>score = None, totalReviews = None\<rparr>"
    by blast
  from score commas
    extractRating_score_first_comma [where c = ?good and err = context_destroyed
      and divs = ?bad and rejection = None and s = "str ''9.2''" and x = "str ''9,2''"]
  have 2: "str ''9.2'' \<noteq> []"
    and 3: "\<exists>t rest. ?good = Some (Returns t # rest) \<and>
         str ''9.2'' = replace_first (trim t) comma period"
    and 4: "44 \<notin> set (replace_first (str ''9,2'') comma period)"
    by blast+
  from 1 2 3 4 show ?thesis by blast
qed

text \<open>
  The claim as stated fails in two places. A returned score can have a comma: a first
  sub-element with the text \<open>8,5,1\<close> gives the score \<open>8.5,1\<close>. And
  \<open>extractRating\<close> throws when \<open>page.evaluate\<close> rejects, which the \<open>try\<close> block
  inside the callback cannot catch.
\<close>

theorem score_can_keep_a_comma:
  "score (rating_callback (Some [Returns (str ''8,5,1'')])) = Some (str ''8.5,1'')
   \<and> 44 \<in> set (str ''8.5,1'')
   \<and> extractRating None (Some [Returns (str ''8,5,1'')]) =
       Returns \<lparr>score = Some (str ''8.5,1''), totalReviews = None\<rparr>
   \<and> extractRating (Some context_destroyed) (Some [Returns (str ''8,5,1'')]) =
       Throws context_destroyed"
  using two_commas
  by (simp add: extractRating_def page_evaluate_def) (simp add: str_def)

section \<open>Exit paths of scrapeHotelData\<close>

lemma index_url_no_marker: "\<not> js_includes index_url hotel_marker"
  by code_simp

lemma blocked_result:
  "fst (scrapeHotelData blocked_env (JStr hotel_url)) = Returns (Failure (message access_denied))"
  by (simp add: fst_scrapeHotelData fst_try_block fst_navigate_phase check_status_cases
        blocked_env_def sample_env_def)

lemma redirected_result:
  "fst (scrapeHotelData redirected_env (JStr hotel_url)) =
     Returns (Failure (message (wrong_page index_url)))"
  by (simp add: fst_scrapeHotelData fst_try_block fst_navigate_phase check_status_cases
        fst_soft_block_phase index_url_no_marker redirected_env_def sample_env_def)

lemma broken_page_result:
  "fst (scrapeHotelData broken_page_env (JStr hotel_url)) =
     Returns (Failure (message context_destroyed))"
  by (simp add: fst_scrapeHotelData fst_try_block fst_navigate_phase check_status_cases
        fst_soft_block_phase fst_extract_phase fst_extractHotelData hotel_url_valid
        broken_page_env_def sample_env_def sample_page_def)

text \<open>
  Claim C2. Whatever the browser and the site do, the calls that \<open>scrapeHotelData\<close>
  has made when it returns show a launched browser exactly when \<open>puppeteer.launch\<close>
  resolved, and then \<open>browser.close()\<close> was called once, as the last call; when no
  browser was launched, \<open>close\<close> is not called. The witness follows the four exits
  of the function: a successful scrape, a 403 response, a final URL that is no hotel
  page, and an exception of the extraction.
\<close>

theorem browser_closed_on_every_path:
  "(Browser_launched \<in> set (effects (snd (scrapeHotelData e url))) \<longleftrightarrow> launch e = Returns ())
   \<and> (Browser_launched \<in> set (effects (snd (scrapeHotelData e url))) \<longrightarrow>
        last (effects (snd (scrapeHotelData e url))) = Close_called \<and>
        count_list (effects (snd (scrapeHotelData e url))) Close_called = 1)
   \<and> (Browser_launched \<notin> set (effects (snd (scrapeHotelData e url))) \<longrightarrow>
        Close_called \<notin> set (effects (snd (scrapeHotelData e url))))"
  by (simp add: scrapeHotelData_effects split: outcome.splits)

theorem browser_closed_on_every_path_witness:
  "resolves_with_success (fst (scrapeHotelData sample_env (JStr hotel_url)))
   \<and> last (effects (snd (scrapeHotelData sample_env (JStr hotel_url)))) = Close_called
   \<and> fst (scrapeHotelData blocked_env (JStr hotel_url)) = Returns (Failure (message access_denied))
   \<and> last (effects (snd (scrapeHotelData blocked_env (JStr hotel_url)))) = Close_called
   \<and> fst (scrapeHotelData redirected_env (JStr hotel_url)) =
       Returns (Failure (message (wrong_page index_url)))
   \<and> last (effects (snd (scrapeHotelData redirected_env (JStr hotel_url)))) = Close_called
   \<and> fst (scrapeHotelData broken_page_env (JStr hotel_url)) =
       Returns (Failure (message context_destroyed))
   \<and> last (effects (snd (scrapeHotelData broken_page_env (JStr hotel_url)))) = Close_called
   \<and> Close_called \<notin>
       set (effects (snd (scrapeHotelData (sample_env\<lparr>launch := Throws no_response\<rparr>) (JStr hotel_url))))"
  using browser_closed_on_every_path [of sample_env "JStr hotel_url"]
        browser_closed_on_every_path [of blocked_env "JStr hotel_url"]
        browser_closed_on_every_path [of redirected_env "JStr hotel_url"]
        browser_closed_on_every_path [of broken_page_env "JStr hotel_url"]
        browser_closed_on_every_path [of "sample_env\<lparr>launch := Throws no_response\<rparr>" "JStr hotel_url"]
        sample_scrape_succeeds blocked_result redirected_result broken_page_result
  by (simp add: sample_env_def blocked_env_def redirected_env_def broken_page_env_def)

end
